theory Spec2Isabelle
  imports Main "HOL-Library.Word"
begin

section \<open>The graph the compiler reads\<close>

text \<open>
  Nodes and tensors are owned by the surrounding graph; the compiler holds raw pointers
  to them and compares them by address. A pointer is modelled as a natural number and the
  graph as the store that dereferences it.
\<close>

type_synonym node_ptr = nat
type_synonym tensor_ptr = nat
type_synonym addr = nat

text \<open>\<^verbatim>\<open>ngraph::element::Type_t\<close>, with the enumerators the switch of \<^verbatim>\<open>get_mlir_type\<close> names.\<close>

datatype Type_t =
  undefined_t | dynamic | boolean | bf16 | f32 | f64
  | i8 | i16 | i32 | i64 | u8 | u16 | u32 | u64

text \<open>
  A dimension is a \<^verbatim>\<open>size_t\<close> in the tensor's shape and an \<^verbatim>\<open>int64_t\<close> in the IR shape; the
  conversion keeps the 64 bits, so both are 64-bit words.
\<close>

record Tensor =
  get_shape :: "64 word list"
  get_element_type :: Type_t

text \<open>\<^verbatim>\<open>std::type_index(typeid(*np))\<close>: the concrete class of a node.\<close>

datatype type_index = TI_Add | TI_MatmulBias | TI_other nat

text \<open>
  A node: its producers (\<^verbatim>\<open>get_arguments()\<close>), and for each output index \<open>i\<close> the pair of
  \<^verbatim>\<open>get_output_tensor_ptr(i)\<close> and the nodes of the inputs in \<^verbatim>\<open>get_output_inputs(i)\<close>
  (\<^verbatim>\<open>ip->get_node()\<close> for each \<open>ip\<close> of the set, in the set's iteration order).
\<close>

record Node =
  get_arguments :: "node_ptr list"
  get_outputs :: "(tensor_ptr \<times> node_ptr list) list"
  node_type :: type_index
  description :: string

record graph =
  node_at :: "node_ptr \<Rightarrow> Node"
  tensor_at :: "tensor_ptr \<Rightarrow> Tensor"

section \<open>Subgraph boundary analysis\<close>

text \<open>
  The idiom \<^verbatim>\<open>if (std::find(begin(v), end(v), x) == end(v)) v.push_back(x);\<close>
\<close>

definition push_back_if_absent :: "'a list \<Rightarrow> 'a \<Rightarrow> 'a list" where
  "push_back_if_absent v x = (if x \<in> set v then v else v @ [x])"

text \<open>\<^verbatim>\<open>std::find(begin(m_sub_graph), end(m_sub_graph), n) == end(m_sub_graph)\<close>\<close>

definition out_of_subgraph :: "node_ptr list \<Rightarrow> node_ptr \<Rightarrow> bool" where
  "out_of_subgraph sub_graph n = (n \<notin> set sub_graph)"

text \<open>The loop over the inputs that read one output (lines 188-205).\<close>

primrec scan_output_inputs ::
  "node_ptr list \<Rightarrow> tensor_ptr \<Rightarrow> node_ptr list \<Rightarrow> tensor_ptr list \<Rightarrow> tensor_ptr list" where
  "scan_output_inputs sub_graph tensor [] op_tensors = op_tensors"
| "scan_output_inputs sub_graph tensor (ip # inputs) op_tensors =
     scan_output_inputs sub_graph tensor inputs
       (if out_of_subgraph sub_graph ip then push_back_if_absent op_tensors tensor
        else op_tensors)"

text \<open>The loop over the outputs of one node (lines 184-206).\<close>

primrec scan_outputs ::
  "node_ptr list \<Rightarrow> (tensor_ptr \<times> node_ptr list) list \<Rightarrow> tensor_ptr list \<Rightarrow> tensor_ptr list" where
  "scan_outputs sub_graph [] op_tensors = op_tensors"
| "scan_outputs sub_graph (out # outs) op_tensors =
     scan_outputs sub_graph outs
       (scan_output_inputs sub_graph (fst out) (snd out) op_tensors)"

text \<open>The loop over the outputs of one out-of-subgraph argument (lines 216-225).\<close>

primrec add_argument_outputs ::
  "(tensor_ptr \<times> node_ptr list) list \<Rightarrow> tensor_ptr list \<Rightarrow> tensor_ptr list" where
  "add_argument_outputs [] ip_tensors = ip_tensors"
| "add_argument_outputs (out # outs) ip_tensors =
     add_argument_outputs outs (push_back_if_absent ip_tensors (fst out))"

text \<open>The loop over the arguments of one node (lines 209-227).\<close>

primrec scan_arguments ::
  "graph \<Rightarrow> node_ptr list \<Rightarrow> node_ptr list \<Rightarrow> tensor_ptr list \<Rightarrow> tensor_ptr list" where
  "scan_arguments g sub_graph [] ip_tensors = ip_tensors"
| "scan_arguments g sub_graph (arg # args) ip_tensors =
     scan_arguments g sub_graph args
       (if out_of_subgraph sub_graph arg
        then add_argument_outputs (get_outputs (node_at g arg)) ip_tensors
        else ip_tensors)"

text \<open>
  The outer loop of \<^verbatim>\<open>build_tensors_list\<close> over the nodes of the unit, on the pair
  \<open>(m_ip_tensors, m_op_tensors)\<close>. The membership tests always read the whole
  \<^verbatim>\<open>m_sub_graph\<close>, the loop walks the nodes still to visit.
\<close>

primrec tensors_list_loop ::
  "graph \<Rightarrow> node_ptr list \<Rightarrow> node_ptr list \<Rightarrow> tensor_ptr list \<times> tensor_ptr list
     \<Rightarrow> tensor_ptr list \<times> tensor_ptr list" where
  "tensors_list_loop g sub_graph [] io = io"
| "tensors_list_loop g sub_graph (node # nodes) io =
     tensors_list_loop g sub_graph nodes
       (scan_arguments g sub_graph (get_arguments (node_at g node)) (fst io),
        scan_outputs sub_graph (get_outputs (node_at g node)) (snd io))"

section \<open>IR types, values and operations\<close>

datatype mlir_type =
  FloatType_F32
  | FloatType_F64
  | IntegerType nat
  | NGTensorType mlir_type "64 word list"
  | MemRefType mlir_type "64 word list"
  | OtherType nat

text \<open>
  An \<^verbatim>\<open>mlir::Value*\<close> is either an argument of the function's entry block or the result of
  the operation the builder created at a given position of that block.
\<close>

datatype mlir_value = Argument nat | Result nat

datatype operation =
  NG_AddOp mlir_value mlir_value
  | NG_MatmulBiasOp mlir_value mlir_value
  | NG_ReturnOp "mlir_value list"

record Function =
  fn_name :: string
  fn_arguments :: "mlir_type list"
  fn_results :: "mlir_type list"
  fn_blocks :: "operation list list"

record Module =
  getFunctions :: "Function list"

record TensorInfo =
  m_value :: mlir_value

section \<open>Failures\<close>

text \<open>
  \<^verbatim>\<open>NGRAPH_ASSERT\<close>, \<^verbatim>\<open>NGRAPH_FAIL\<close> and \<^verbatim>\<open>assert\<close> stop the attempt with an assertion
  failure carrying the streamed message; \<^verbatim>\<open>unsupported_op\<close> is the exception type thrown by
  \<^verbatim>\<open>build_ng_dialect\<close>.
\<close>

datatype error = AssertionFailure string | unsupported_op string

section \<open>The type mapper\<close>

text \<open>\<^verbatim>\<open>MLIRCompiler::get_mlir_type(const element::Type&)\<close>, lines 242-264.\<close>

fun get_mlir_type_element :: "Type_t \<Rightarrow> error + mlir_type" where
  "get_mlir_type_element undefined_t = Inl (AssertionFailure ''MLIR: Unsupported NGraph types'')"
| "get_mlir_type_element dynamic = Inl (AssertionFailure ''MLIR: Unsupported NGraph types'')"
| "get_mlir_type_element boolean = Inl (AssertionFailure ''MLIR: Unsupported NGraph types'')"
| "get_mlir_type_element bf16 = Inl (AssertionFailure ''MLIR: Unsupported NGraph types'')"
| "get_mlir_type_element f32 = Inr FloatType_F32"
| "get_mlir_type_element f64 = Inr FloatType_F64"
| "get_mlir_type_element i8 = Inr (IntegerType 8)"
| "get_mlir_type_element u8 = Inr (IntegerType 8)"
| "get_mlir_type_element i16 = Inr (IntegerType 16)"
| "get_mlir_type_element u16 = Inr (IntegerType 16)"
| "get_mlir_type_element i32 = Inr (IntegerType 32)"
| "get_mlir_type_element u32 = Inr (IntegerType 32)"
| "get_mlir_type_element i64 = Inr (IntegerType 64)"
| "get_mlir_type_element u64 = Inr (IntegerType 64)"

text \<open>\<^verbatim>\<open>MLIRCompiler::get_mlir_type(const descriptor::Tensor*)\<close>, lines 231-240.\<close>

definition get_mlir_type :: "graph \<Rightarrow> tensor_ptr \<Rightarrow> error + mlir_type" where
  "get_mlir_type g tensor =
     (let shape = get_shape (tensor_at g tensor) in
      case get_mlir_type_element (get_element_type (tensor_at g tensor)) of
        Inl e \<Rightarrow> Inl e
      | Inr elt \<Rightarrow> Inr (NGTensorType elt shape))"

text \<open>The loops of lines 143-151: the types of a tensor list, up to the first failure.\<close>

primrec get_mlir_types :: "graph \<Rightarrow> tensor_ptr list \<Rightarrow> error + mlir_type list" where
  "get_mlir_types g [] = Inr []"
| "get_mlir_types g (tensor # tensors) =
     (case get_mlir_type g tensor of
        Inl e \<Rightarrow> Inl e
      | Inr ty \<Rightarrow>
          (case get_mlir_types g tensors of
             Inl e \<Rightarrow> Inl e
           | Inr tys \<Rightarrow> Inr (ty # tys)))"

section \<open>The compiler instance\<close>

text \<open>
  The heap holds the blocks obtained from \<^verbatim>\<open>malloc\<close> and not yet freed, and whatever blocks
  the caller owns. A \<^verbatim>\<open>void*\<close> is an address, \<open>0\<close> is \<^verbatim>\<open>nullptr\<close>. The compiler's state is
  its members, together with the heap (\<open>mem\<close>) it allocates in and the number of calls of
  the engine's \<^verbatim>\<open>invoke\<close> made so far (\<open>invocations\<close>); \<open>m_builder\<close> holds the function the
  builder appends to, \<open>m_mem_mgr\<close> the blocks the memory manager has handed out.
\<close>

datatype cell =
  StaticFloatMemRef addr
  | MemMgrRef
  | Raw

type_synonym heap = "(addr \<times> cell) list"

record MLIRCompiler =
  m_sub_graph :: "node_ptr list"
  m_external_tensors :: "addr list"
  m_ip_tensors :: "tensor_ptr list"
  m_op_tensors :: "tensor_ptr list"
  m_tensor_to_value_map :: "(tensor_ptr \<times> TensorInfo) list"
  m_module :: "Module option"
  m_builder :: "Function option"
  m_engine :: "Module option"
  m_invoke_args :: "addr list"
  m_mem_mgr :: "addr list"
  mem :: heap
  invocations :: nat

text \<open>\<^verbatim>\<open>MLIRCompiler::build_tensors_list\<close>, lines 178-229.\<close>

definition build_tensors_list :: "graph \<Rightarrow> MLIRCompiler \<Rightarrow> MLIRCompiler" where
  "build_tensors_list g c =
     (let io = tensors_list_loop g (m_sub_graph c) (m_sub_graph c)
                 (m_ip_tensors c, m_op_tensors c)
      in c\<lparr>m_ip_tensors := fst io, m_op_tensors := snd io\<rparr>)"

section \<open>The IR value map\<close>

text \<open>
  \<^verbatim>\<open>m_tensor_to_value_map\<close> is a container of (tensor, info) entries. \<^verbatim>\<open>find\<close> returns the
  entry of a key, \<^verbatim>\<open>insert\<close> adds an entry unless the key has one.
\<close>

definition map_find :: "(tensor_ptr \<times> TensorInfo) list \<Rightarrow> tensor_ptr \<Rightarrow> TensorInfo option" where
  "map_find m tensor = map_of m tensor"

definition map_insert ::
  "(tensor_ptr \<times> TensorInfo) list \<Rightarrow> tensor_ptr \<times> TensorInfo \<Rightarrow> (tensor_ptr \<times> TensorInfo) list" where
  "map_insert m entry = (if map_find m (fst entry) = None then m @ [entry] else m)"

text \<open>\<^verbatim>\<open>MLIRCompiler::update_tensor_value\<close>, lines 266-272.\<close>

definition update_tensor_value ::
  "MLIRCompiler \<Rightarrow> tensor_ptr \<Rightarrow> mlir_value \<Rightarrow> error \<times> MLIRCompiler + MLIRCompiler" where
  "update_tensor_value c tensor val =
     (if map_find (m_tensor_to_value_map c) tensor \<noteq> None
      then Inl (AssertionFailure ''tensor value already defined'', c)
      else Inr (c\<lparr>m_tensor_to_value_map :=
                    map_insert (m_tensor_to_value_map c) (tensor, \<lparr>m_value = val\<rparr>)\<rparr>))"

text \<open>\<^verbatim>\<open>MLIRCompiler::get_tensor_value\<close>, lines 274-281.\<close>

definition get_tensor_value :: "MLIRCompiler \<Rightarrow> tensor_ptr \<Rightarrow> error + TensorInfo" where
  "get_tensor_value c tensor =
     (case map_find (m_tensor_to_value_map c) tensor of
        None \<Rightarrow> Inl (AssertionFailure ''Undefined tensor'')
      | Some info \<Rightarrow> Inr info)"

section \<open>Building the module\<close>

text \<open>
  Modelled from the spec: \<^verbatim>\<open>Node::get_argument(i)\<close> and the index-free
  \<^verbatim>\<open>Node::get_output_tensor_ptr()\<close> are defined with the node class, which is not among
  the sources. The spec gives a node an ordered list of argument nodes and one or more
  output tensor slots, and a builder records its result under the node's output tensor:
  the first returns the \<open>i\<close>-th argument and fails when there is none, the second returns
  the tensor of the only output and fails unless the node has exactly one. Both failures
  stop the attempt.
\<close>

definition get_argument :: "Node \<Rightarrow> nat \<Rightarrow> error + node_ptr" where
  "get_argument node i =
     (if i < length (get_arguments node) then Inr (get_arguments node ! i)
      else Inl (AssertionFailure ''get_argument''))"

definition get_output_tensor_ptr :: "Node \<Rightarrow> error + tensor_ptr" where
  "get_output_tensor_ptr node =
     (case get_outputs node of
        [out] \<Rightarrow> Inr (fst out)
      | _ \<Rightarrow> Inl (AssertionFailure ''get_output_tensor_ptr''))"

text \<open>
  \<^verbatim>\<open>m_builder->create<Op>(...)\<close>: the builder appends the operation to the entry block of
  the function it was created on and returns the operation; \<^verbatim>\<open>getResult()\<close> is the value
  at the operation's position. A null builder, or a function without a block, cannot be
  appended to: the model stops there.
\<close>

definition builder_create ::
  "MLIRCompiler \<Rightarrow> operation \<Rightarrow> error \<times> MLIRCompiler + mlir_value \<times> MLIRCompiler" where
  "builder_create c operation =
     (case m_builder c of
        None \<Rightarrow> Inl (AssertionFailure ''no builder'', c)
      | Some function \<Rightarrow>
          (case fn_blocks function of
             [] \<Rightarrow> Inl (AssertionFailure ''no insertion block'', c)
           | block # blocks \<Rightarrow>
               Inr (Result (length block),
                    c\<lparr>m_builder :=
                        Some (function\<lparr>fn_blocks := (block @ [operation]) # blocks\<rparr>)\<rparr>)))"

text \<open>\<^verbatim>\<open>MLIRCompiler::create_binary_op<BinOp>\<close>, lines 356-365.\<close>

definition create_binary_op ::
  "(mlir_value \<Rightarrow> mlir_value \<Rightarrow> operation) \<Rightarrow> graph \<Rightarrow> MLIRCompiler \<Rightarrow> Node
     \<Rightarrow> error \<times> MLIRCompiler + mlir_value \<times> MLIRCompiler" where
  "create_binary_op BinOp g c ng_node =
     (case get_argument ng_node 0 of
        Inl e \<Rightarrow> Inl (e, c)
      | Inr arg0 \<Rightarrow>
     (case get_output_tensor_ptr (node_at g arg0) of
        Inl e \<Rightarrow> Inl (e, c)
      | Inr lhs \<Rightarrow>
     (case get_argument ng_node 1 of
        Inl e \<Rightarrow> Inl (e, c)
      | Inr arg1 \<Rightarrow>
     (case get_output_tensor_ptr (node_at g arg1) of
        Inl e \<Rightarrow> Inl (e, c)
      | Inr rhs \<Rightarrow>
     (case get_tensor_value c lhs of
        Inl e \<Rightarrow> Inl (e, c)
      | Inr lhs_v \<Rightarrow>
     (case get_tensor_value c rhs of
        Inl e \<Rightarrow> Inl (e, c)
      | Inr rhs_v \<Rightarrow> builder_create c (BinOp (m_value lhs_v) (m_value rhs_v))))))))"

text \<open>
  The builders \<^verbatim>\<open>create_op<ngraph::op::Add>\<close> and \<^verbatim>\<open>create_op<ngraph::op::MatmulBias>\<close>,
  lines 335-350. A builder returns a null value when it has updated the value map itself;
  neither of these does.
\<close>

definition create_op_Add ::
  "graph \<Rightarrow> MLIRCompiler \<Rightarrow> Node \<Rightarrow> error \<times> MLIRCompiler + mlir_value option \<times> MLIRCompiler" where
  "create_op_Add g compiler ng_node =
     (case create_binary_op NG_AddOp g compiler ng_node of
        Inl e \<Rightarrow> Inl e
      | Inr (v, c) \<Rightarrow> Inr (Some v, c))"

definition create_op_MatmulBias ::
  "graph \<Rightarrow> MLIRCompiler \<Rightarrow> Node \<Rightarrow> error \<times> MLIRCompiler + mlir_value option \<times> MLIRCompiler" where
  "create_op_MatmulBias g compiler ng_node =
     (if length (get_arguments ng_node) \<noteq> 2
      then Inl (AssertionFailure ''Bias is not supported in MatmulBias operation'', compiler)
      else (case create_binary_op NG_MatmulBiasOp g compiler ng_node of
              Inl e \<Rightarrow> Inl e
            | Inr (v, c) \<Rightarrow> Inr (Some v, c)))"

text \<open>The table \<^verbatim>\<open>MLIRCompiler::op_dispatcher\<close>, lines 352-354.\<close>

fun op_dispatcher ::
  "type_index \<Rightarrow>
     (graph \<Rightarrow> MLIRCompiler \<Rightarrow> Node \<Rightarrow> error \<times> MLIRCompiler + mlir_value option \<times> MLIRCompiler) option" where
  "op_dispatcher TI_Add = Some create_op_Add"
| "op_dispatcher TI_MatmulBias = Some create_op_MatmulBias"
| "op_dispatcher (TI_other n) = None"

text \<open>The loop of \<^verbatim>\<open>create_return\<close>, lines 370-373.\<close>

primrec get_tensor_values :: "MLIRCompiler \<Rightarrow> tensor_ptr list \<Rightarrow> error + mlir_value list" where
  "get_tensor_values c [] = Inr []"
| "get_tensor_values c (tensor # tensors) =
     (case get_tensor_value c tensor of
        Inl e \<Rightarrow> Inl e
      | Inr info \<Rightarrow>
          (case get_tensor_values c tensors of
             Inl e \<Rightarrow> Inl e
           | Inr vs \<Rightarrow> Inr (m_value info # vs)))"

text \<open>\<^verbatim>\<open>MLIRCompiler::create_return\<close>, lines 367-375.\<close>

definition create_return :: "MLIRCompiler \<Rightarrow> error \<times> MLIRCompiler + MLIRCompiler" where
  "create_return c =
     (case get_tensor_values c (m_op_tensors c) of
        Inl e \<Rightarrow> Inl (e, c)
      | Inr value_list \<Rightarrow>
          (case builder_create c (NG_ReturnOp value_list) of
             Inl e \<Rightarrow> Inl e
           | Inr (v, c') \<Rightarrow> Inr c'))"

text \<open>\<^verbatim>\<open>MLIRCompiler::build_ng_dialect\<close>, lines 309-333.\<close>

definition build_ng_dialect :: "graph \<Rightarrow> MLIRCompiler \<Rightarrow> error \<times> MLIRCompiler + MLIRCompiler" where
  "build_ng_dialect g c =
     (if length (m_sub_graph c) \<noteq> 1
      then Inl (AssertionFailure ''Supporting code-gen for a single node for now'', c)
      else
        (let np = m_sub_graph c ! 0 in
         case op_dispatcher (node_type (node_at g np)) of
           None \<Rightarrow>
             Inl (unsupported_op
                    (''The MLIR backend doesn't currently implement the '' @ [CHR 0x27] @
                     description (node_at g np) @ [CHR 0x27] @ '' operation''), c)
         | Some create_op \<Rightarrow>
             (case create_op g c (node_at g np) of
                Inl e \<Rightarrow> Inl e
              | Inr (mlir_value, c1) \<Rightarrow>
                  (case (case mlir_value of
                           None \<Rightarrow> Inr c1
                         | Some v \<Rightarrow>
                             (case get_output_tensor_ptr (node_at g np) of
                                Inl e \<Rightarrow> Inl (e, c1)
                              | Inr tensor \<Rightarrow> update_tensor_value c1 tensor v)) of
                     Inl e \<Rightarrow> Inl e
                   | Inr c2 \<Rightarrow> create_return c2))))"

text \<open>The loop of lines 159-166, which gives the \<open>i\<close>-th input tensor the \<open>i\<close>-th argument.\<close>

primrec populate_tensor_to_value_map ::
  "tensor_ptr list \<Rightarrow> nat \<Rightarrow> (tensor_ptr \<times> TensorInfo) list \<Rightarrow> (tensor_ptr \<times> TensorInfo) list" where
  "populate_tensor_to_value_map [] i m = m"
| "populate_tensor_to_value_map (tensor # tensors) i m =
     populate_tensor_to_value_map tensors (i + 1)
       (map_insert m (tensor, \<lparr>m_value = Argument i\<rparr>))"

text \<open>
  \<^verbatim>\<open>MLIRCompiler::build_module\<close> up to the creation of the builder, lines 135-169. The
  function under construction is the one the builder holds.
\<close>

definition build_module_prologue :: "graph \<Rightarrow> MLIRCompiler \<Rightarrow> error \<times> MLIRCompiler + MLIRCompiler" where
  "build_module_prologue g c =
     (let c1 = build_tensors_list g (c\<lparr>m_module := Some \<lparr>getFunctions = []\<rparr>\<rparr>) in
      if m_ip_tensors c1 = [] then Inl (AssertionFailure ''Cannot have empty inputs list'', c1)
      else if m_op_tensors c1 = [] then Inl (AssertionFailure ''Cannot have empty outputs list'', c1)
      else
        (case get_mlir_types g (m_ip_tensors c1) of
           Inl e \<Rightarrow> Inl (e, c1)
         | Inr args_type_list \<Rightarrow>
             (case get_mlir_types g (m_op_tensors c1) of
                Inl e \<Rightarrow> Inl (e, c1)
              | Inr result_type_list \<Rightarrow>
                  (let function = \<lparr>fn_name = ''main'', fn_arguments = args_type_list,
                                    fn_results = result_type_list, fn_blocks = [[]]\<rparr>
                   in Inr (c1\<lparr>m_tensor_to_value_map :=
                                 populate_tensor_to_value_map (m_ip_tensors c1) 0
                                   (m_tensor_to_value_map c1),
                               m_builder := Some function\<rparr>)))))"

text \<open>
  \<^verbatim>\<open>MLIRCompiler::build_module\<close>, lines 133-176: the prologue, the lowering of the unit and
  the hand-over of the function to the module. The dump of line 174 changes nothing.
  The module and the builder are both set when the lowering returns; the last case of
  the model stands for a null pointer there.
\<close>

definition build_module :: "graph \<Rightarrow> MLIRCompiler \<Rightarrow> error \<times> MLIRCompiler + MLIRCompiler" where
  "build_module g c =
     (case build_module_prologue g c of
        Inl e \<Rightarrow> Inl e
      | Inr c1 \<Rightarrow>
          (case build_ng_dialect g c1 of
             Inl e \<Rightarrow> Inl e
           | Inr c2 \<Rightarrow>
               (case (m_module c2, m_builder c2) of
                  (Some module, Some function) \<Rightarrow>
                    Inr (c2\<lparr>m_module :=
                              Some (module\<lparr>getFunctions := getFunctions module @ [function]\<rparr>)\<rparr>)
                | _ \<Rightarrow> Inl (AssertionFailure ''no module'', c2))))"

section \<open>The passes and the execution engine\<close>

text \<open>
  The lowering passes, the converter to the LLVM dialect and the JIT engine are MLIR's and
  the lowerer's; the compiler only calls them. They are parameters of the model. A run of
  a pass manager works on the module in place and returns a status: it maps a module to
  the module it leaves and to whether it succeeded. The converter gives the converted
  module or fails (\<open>None\<close>), the engine is constructed or not, and an invocation tells
  how many temporaries the compiled code asked the memory manager for and whether it
  succeeded. \<open>NDEBUG\<close> tells whether the compiler was built with that macro defined, which
  turns the \<^verbatim>\<open>assert\<close> of the C library into nothing.
\<close>

record backend =
  dialect_lowering_pass :: "Module \<Rightarrow> Module \<times> bool"
  lower_affine_pass :: "Module \<Rightarrow> Module \<times> bool"
  std_to_llvm_converter :: "Module \<Rightarrow> Module option"
  execution_engine_create :: "Module \<Rightarrow> bool"
  engine_invoke :: "Module \<Rightarrow> addr list \<Rightarrow> heap \<Rightarrow> nat \<times> bool"
  NDEBUG :: bool

text \<open>
  \<^verbatim>\<open>MLIRCompiler::lower_dialect\<close>, lines 283-294: the status that \<^verbatim>\<open>pm.run\<close> returns is
  not read, so the function goes on with the module the passes left, also when they
  failed. A null module cannot be passed on: the model stops there.
\<close>

definition lower_dialect :: "backend \<Rightarrow> MLIRCompiler \<Rightarrow> error \<times> MLIRCompiler + MLIRCompiler" where
  "lower_dialect b c =
     (case m_module c of
        None \<Rightarrow> Inl (AssertionFailure ''no module'', c)
      | Some module \<Rightarrow> Inr (c\<lparr>m_module := Some (fst (dialect_lowering_pass b module))\<rparr>))"

text \<open>
  \<^verbatim>\<open>MLIRCompiler::optimize\<close>, lines 296-304: the status is tested by the \<^verbatim>\<open>assert\<close> of the C
  library, which stops the run unless the compiler was built with \<^verbatim>\<open>NDEBUG\<close>; then the
  failed status is dropped.
\<close>

definition optimize :: "backend \<Rightarrow> MLIRCompiler \<Rightarrow> error \<times> MLIRCompiler + MLIRCompiler" where
  "optimize b c =
     (case m_module c of
        None \<Rightarrow> Inl (AssertionFailure ''no module'', c)
      | Some module \<Rightarrow>
          (let (module', rr) = lower_affine_pass b module;
               c1 = c\<lparr>m_module := Some module'\<rparr>
           in if \<not> rr \<and> \<not> NDEBUG b
              then Inl (AssertionFailure ''affine loop lowering failed'', c1)
              else Inr c1))"

section \<open>The heap\<close>

text \<open>
  \<^verbatim>\<open>malloc\<close> returns the address of a new block, different from \<^verbatim>\<open>nullptr\<close> and from
  every block of the heap; \<^verbatim>\<open>free\<close> removes the block at an address.
\<close>

definition fresh :: "heap \<Rightarrow> addr" where
  "fresh h = Suc (fold max (map fst h) 0)"

definition malloc :: "heap \<Rightarrow> cell \<Rightarrow> addr \<times> heap" where
  "malloc h content = (fresh h, h @ [(fresh h, content)])"

definition free :: "heap \<Rightarrow> addr \<Rightarrow> heap" where
  "free h a = filter (\<lambda>block. fst block \<noteq> a) h"

definition allocated :: "heap \<Rightarrow> addr set" where
  "allocated h = fst ` set h"

text \<open>The assignment \<^verbatim>\<open>((mlir::StaticFloatMemRef*) p)->data = d\<close>.\<close>

definition store_data :: "heap \<Rightarrow> addr \<Rightarrow> addr \<Rightarrow> heap" where
  "store_data h p d = map (\<lambda>block. if fst block = p then (p, StaticFloatMemRef d) else block) h"

text \<open>
  Modelled from the spec: \<^verbatim>\<open>MLIRMemMgr\<close> is declared in a header that is not among the
  sources. The spec's scratch allocator backs the temporaries of the compiled code and is
  reclaimed at cleanup: an allocation is a block from \<^verbatim>\<open>malloc\<close> that the manager records,
  \<^verbatim>\<open>freeAll\<close> frees every recorded block.
\<close>

definition MemMgr_allocate :: "MLIRCompiler \<Rightarrow> MLIRCompiler" where
  "MemMgr_allocate c =
     (let (p, h) = malloc (mem c) Raw in c\<lparr>m_mem_mgr := m_mem_mgr c @ [p], mem := h\<rparr>)"

definition freeAll :: "MLIRCompiler \<Rightarrow> MLIRCompiler" where
  "freeAll c = c\<lparr>m_mem_mgr := [], mem := fold (\<lambda>p h. free h p) (m_mem_mgr c) (mem c)\<rparr>"

section \<open>Binding the arguments\<close>

definition getNumDynamicDims :: "64 word list \<Rightarrow> nat" where
  "getNumDynamicDims shape = length (filter (\<lambda>d. d = - 1) shape)"

text \<open>
  \<^verbatim>\<open>MLIRCompiler::allocate_memref_descriptor\<close>, lines 475-489; the result \<open>0\<close> is the
  \<^verbatim>\<open>nullptr\<close> returned for a type that is not a memory reference.
\<close>

definition allocate_memref_descriptor :: "mlir_type \<Rightarrow> heap \<Rightarrow> error \<times> heap + addr \<times> heap" where
  "allocate_memref_descriptor type h =
     (case type of
        MemRefType elt shape \<Rightarrow>
          (if getNumDynamicDims shape \<noteq> 0 then Inl (AssertionFailure [], h)
           else Inr (malloc h (StaticFloatMemRef 0)))
      | _ \<Rightarrow> Inr (0, h))"

text \<open>\<^verbatim>\<open>MLIRCompiler::allocate_memref_args\<close>, lines 460-473: the loop, then the function.\<close>

primrec allocate_memref_args_loop ::
  "mlir_type list \<Rightarrow> addr list \<Rightarrow> heap \<Rightarrow> error \<times> heap + addr list \<times> heap" where
  "allocate_memref_args_loop [] args h = Inr (args, h)"
| "allocate_memref_args_loop (arg # rest) args h =
     (case allocate_memref_descriptor arg h of
        Inl e \<Rightarrow> Inl e
      | Inr (descriptor, h') \<Rightarrow>
          (if descriptor = 0 then allocate_memref_args_loop rest args h'
           else allocate_memref_args_loop rest (args @ [descriptor]) h'))"

definition allocate_memref_args :: "Function \<Rightarrow> heap \<Rightarrow> error \<times> heap + addr list \<times> heap" where
  "allocate_memref_args func h = allocate_memref_args_loop (fn_arguments func) [] h"

definition getNamedFunction :: "Module \<Rightarrow> string \<Rightarrow> Function option" where
  "getNamedFunction module name = find (\<lambda>f. fn_name f = name) (getFunctions module)"

text \<open>
  Modelled from the spec: \<^verbatim>\<open>get_mem_mgr_arg_id\<close> is declared in the compiler's header,
  which is not among the sources. The spec reserves the fixed final position of the
  declared parameters for the scratch allocator, the index \<^verbatim>\<open>getNumArguments() - 1\<close>. (For
  a function without parameters the source's unsigned subtraction wraps; line 391 has
  already stopped the attempt then.)
\<close>

definition get_mem_mgr_arg_id :: "Function \<Rightarrow> nat" where
  "get_mem_mgr_arg_id func = length (fn_arguments func) - 1"

text \<open>The loop of lines 398-401.\<close>

primrec assign_external_tensors :: "addr list \<Rightarrow> nat \<Rightarrow> addr list \<Rightarrow> heap \<Rightarrow> heap" where
  "assign_external_tensors [] i external_tensors h = h"
| "assign_external_tensors (arg # args) i external_tensors h =
     assign_external_tensors args (i + 1) external_tensors
       (store_data h arg (external_tensors ! i))"

text \<open>\<^verbatim>\<open>MLIRCompiler::bind_arguments\<close>, lines 377-411.\<close>

definition bind_arguments :: "MLIRCompiler \<Rightarrow> error \<times> MLIRCompiler + MLIRCompiler" where
  "bind_arguments c =
     (case m_module c of
        None \<Rightarrow> Inl (AssertionFailure ''MLIR module is not ready.'', c)
      | Some module \<Rightarrow>
     (case getNamedFunction module ''main'' of
        None \<Rightarrow> Inl (AssertionFailure ''Function not found'', c)
      | Some func \<Rightarrow>
     (if fn_blocks func = [] then Inl (AssertionFailure ''Function not found'', c)
      else
     (case allocate_memref_args func (mem c) of
        Inl (e, h) \<Rightarrow> Inl (e, c\<lparr>mem := h\<rparr>)
      | Inr (expected_arguments, h) \<Rightarrow>
     (if expected_arguments = []
      then Inl (AssertionFailure ''Arguments can't be created'', c\<lparr>mem := h\<rparr>)
      else
     (let c1 = c\<lparr>m_invoke_args := expected_arguments, mem := h\<rparr> in
      if length (m_invoke_args c1) \<noteq> length (m_external_tensors c1)
      then Inl (AssertionFailure
                  ''Number of external tensors doesn't match number of function arguments'', c1)
      else
     (let c2 = c1\<lparr>mem := assign_external_tensors (m_invoke_args c1) 0
                            (m_external_tensors c1) (mem c1)\<rparr>;
          (mem_mgr_arg, h') = malloc (mem c2) MemMgrRef;
          c3 = c2\<lparr>mem := h'\<rparr>
      in if length (m_invoke_args c3) \<noteq> get_mem_mgr_arg_id func
         then Inl (AssertionFailure [], c3)
         else Inr (c3\<lparr>m_invoke_args := m_invoke_args c3 @ [mem_mgr_arg]\<rparr>))))))))"

section \<open>Execution and cleanup\<close>

text \<open>The compiled code's requests to the memory manager during one invocation.\<close>

primrec jit_temporaries :: "nat \<Rightarrow> MLIRCompiler \<Rightarrow> MLIRCompiler" where
  "jit_temporaries 0 c = c"
| "jit_temporaries (Suc n) c = jit_temporaries n (MemMgr_allocate c)"

text \<open>\<^verbatim>\<open>MLIRCompiler::execute\<close>, lines 413-442; \<open>invocations\<close> counts the calls of \<^verbatim>\<open>invoke\<close>.\<close>

definition execute :: "backend \<Rightarrow> MLIRCompiler \<Rightarrow> error \<times> MLIRCompiler + MLIRCompiler" where
  "execute b c =
     (case m_module c of
        None \<Rightarrow> Inl (AssertionFailure ''MLIR module is not ready.'', c)
      | Some module \<Rightarrow>
     (case std_to_llvm_converter b module of
        None \<Rightarrow> Inl (AssertionFailure ''second conversion failed'', c)
      | Some module' \<Rightarrow>
     (let c1 = c\<lparr>m_module := Some module'\<rparr> in
      if \<not> execution_engine_create b module'
      then Inl (AssertionFailure ''failed to construct an execution engine'', c1)
      else
     (let c2 = c1\<lparr>m_engine := Some module'\<rparr>;
          (temporaries, success) = engine_invoke b module' (m_invoke_args c2) (mem c2);
          c3 = jit_temporaries temporaries (c2\<lparr>invocations := invocations c2 + 1\<rparr>)
      in if \<not> success
         then Inl (AssertionFailure (''JIT invocation of 'main' failed'' @ [CHR 0x0A]), c3)
         else Inr c3))))"

text \<open>\<^verbatim>\<open>MLIRCompiler::cleanup\<close>, lines 444-458.\<close>

definition cleanup :: "MLIRCompiler \<Rightarrow> MLIRCompiler" where
  "cleanup c =
     (let c1 = c\<lparr>mem := fold (\<lambda>arg h. free h arg) (m_invoke_args c) (mem c)\<rparr>;
          c2 = c1\<lparr>m_builder := None\<rparr>
      in freeAll c2)"

text \<open>\<^verbatim>\<open>MLIRCompiler::compile_and_run\<close>, lines 123-131: a failure of a step leaves the function.\<close>

definition compile_and_run ::
  "backend \<Rightarrow> graph \<Rightarrow> MLIRCompiler \<Rightarrow> error \<times> MLIRCompiler + MLIRCompiler" where
  "compile_and_run b g c =
     (case build_module g c of
        Inl e \<Rightarrow> Inl e
      | Inr c1 \<Rightarrow>
     (case lower_dialect b c1 of
        Inl e \<Rightarrow> Inl e
      | Inr c2 \<Rightarrow>
     (case optimize b c2 of
        Inl e \<Rightarrow> Inl e
      | Inr c3 \<Rightarrow>
     (case bind_arguments c3 of
        Inl e \<Rightarrow> Inl e
      | Inr c4 \<Rightarrow>
     (case execute b c4 of
        Inl e \<Rightarrow> Inl e
      | Inr c5 \<Rightarrow> Inr (cleanup c5))))))"

section \<open>The type dispatch primitive\<close>

text \<open>
  \<^verbatim>\<open>struct DiscreteTypeInfo\<close> of \<^verbatim>\<open>type.hpp\<close>. \<^verbatim>\<open>is_castable\<close> compares \<^verbatim>\<open>this\<close> with the address
  of its argument, so a descriptor is modelled with the address it lives at next to its
  two fields.
\<close>

record DiscreteTypeInfo =
  address :: addr
  name :: string
  version :: "64 word"

definition is_castable :: "DiscreteTypeInfo \<Rightarrow> DiscreteTypeInfo \<Rightarrow> bool" where
  "is_castable this target_type = (address this = address target_type)"

text \<open>
  A handle points to an object; the virtual \<^verbatim>\<open>get_type_info()\<close> of the object returns the
  descriptor of its class. The template argument \<^verbatim>\<open>Type\<close> enters the three functions only
  through \<^verbatim>\<open>Type::type_info\<close>, the first argument here. A narrowing cast returns the same
  pointer at the narrowed type, or the null pointer (\<open>None\<close>).
\<close>

record object =
  object_address :: addr
  get_type_info :: DiscreteTypeInfo

definition is_type :: "DiscreteTypeInfo \<Rightarrow> object \<Rightarrow> bool" where
  "is_type type_info val = is_castable (get_type_info val) type_info"

definition as_type :: "DiscreteTypeInfo \<Rightarrow> object \<Rightarrow> object option" where
  "as_type type_info val = (if is_type type_info val then Some val else None)"

definition as_type_ptr :: "DiscreteTypeInfo \<Rightarrow> object \<Rightarrow> object option" where
  "as_type_ptr type_info val = (if is_type type_info val then Some val else None)"

section \<open>What the boundary lists are compared with\<close>

text \<open>A list without its repetitions, each element at the place of its first occurrence.\<close>

definition first_occurrences :: "'a list \<Rightarrow> 'a list" where
  "first_occurrences xs = rev (remdups (rev xs))"

text \<open>
  The output tensors of the unit's nodes that have a consumer outside the unit, node by
  node and output by output.
\<close>

definition outputs_used_outside :: "node_ptr list \<Rightarrow> (tensor_ptr \<times> node_ptr list) list \<Rightarrow> tensor_ptr list" where
  "outputs_used_outside sub_graph outs =
     map fst (filter (\<lambda>out. \<exists>ip \<in> set (snd out). ip \<notin> set sub_graph) outs)"

definition boundary_outputs :: "graph \<Rightarrow> node_ptr list \<Rightarrow> tensor_ptr list" where
  "boundary_outputs g sub_graph =
     concat (map (\<lambda>node. outputs_used_outside sub_graph (get_outputs (node_at g node))) sub_graph)"

text \<open>
  All output tensors of the arguments outside the unit, node by node, argument by
  argument and output by output.
\<close>

definition outputs_of_outside_arguments :: "graph \<Rightarrow> node_ptr list \<Rightarrow> node_ptr list \<Rightarrow> tensor_ptr list" where
  "outputs_of_outside_arguments g sub_graph args =
     concat (map (\<lambda>arg. map fst (get_outputs (node_at g arg)))
               (filter (\<lambda>arg. arg \<notin> set sub_graph) args))"

definition boundary_inputs :: "graph \<Rightarrow> node_ptr list \<Rightarrow> tensor_ptr list" where
  "boundary_inputs g sub_graph =
     concat (map (\<lambda>node. outputs_of_outside_arguments g sub_graph (get_arguments (node_at g node)))
               sub_graph)"

section \<open>The states the value map goes through\<close>

text \<open>
  The map starts empty and is written at two places only: the \<^verbatim>\<open>insert\<close> of line 164 and
  \<^verbatim>\<open>update_tensor_value\<close>.
\<close>

inductive value_map_reachable :: "(tensor_ptr \<times> TensorInfo) list \<Rightarrow> bool" where
  initial: "value_map_reachable []"
| inserted: "value_map_reachable m \<Longrightarrow> value_map_reachable (map_insert m entry)"
| updated: "value_map_reachable (m_tensor_to_value_map c) \<Longrightarrow>
            update_tensor_value c tensor val = Inr c' \<Longrightarrow>
            value_map_reachable (m_tensor_to_value_map c')"

section \<open>What the bound arguments are compared with\<close>

text \<open>The declared parameters that \<^verbatim>\<open>dyn_cast<mlir::MemRefType>\<close> accepts.\<close>

fun is_memref :: "mlir_type \<Rightarrow> bool" where
  "is_memref (MemRefType elt shape) = True"
| "is_memref ty = False"

text \<open>The content of the block at an address, if the heap has one there.\<close>

definition block_at :: "heap \<Rightarrow> addr \<Rightarrow> cell option" where
  "block_at h a = map_of h a"

text \<open>
  The part of the state that module construction and the passes leave alone: the heap,
  the memory manager's table, the invocation arguments, the external buffer table, the
  engine and the count of invocations.
\<close>

definition resources ::
  "MLIRCompiler \<Rightarrow> heap \<times> addr list \<times> addr list \<times> addr list \<times> Module option \<times> nat" where
  "resources c =
     (mem c, m_mem_mgr c, m_invoke_args c, m_external_tensors c, m_engine c, invocations c)"

section \<open>Sample inputs\<close>

text \<open>
  A unit of one \<^verbatim>\<open>Add\<close> node (10) reading the outputs of two parameters (1 and 2) and read by
  a result node (20); all tensors are float32 of shape [2, 3].
\<close>

definition add_graph :: graph where
  "add_graph =
     \<lparr>node_at = (\<lambda>p.
        if p = 10 then \<lparr>get_arguments = [1, 2], get_outputs = [(7, [20])],
                         node_type = TI_Add, description = ''Add''\<rparr>
        else if p = 1 then \<lparr>get_arguments = [], get_outputs = [(5, [10])],
                             node_type = TI_other 0, description = ''Parameter''\<rparr>
        else if p = 2 then \<lparr>get_arguments = [], get_outputs = [(6, [10])],
                             node_type = TI_other 0, description = ''Parameter''\<rparr>
        else \<lparr>get_arguments = [10], get_outputs = [(8, [])],
               node_type = TI_other 1, description = ''Result''\<rparr>),
      tensor_at = (\<lambda>t. \<lparr>get_shape = [2, 3], get_element_type = f32\<rparr>)\<rparr>"

text \<open>A new compiler instance for a unit and a table of external buffers.\<close>

definition new_compiler :: "node_ptr list \<Rightarrow> addr list \<Rightarrow> heap \<Rightarrow> MLIRCompiler" where
  "new_compiler sub_graph external_tensors h =
     \<lparr>m_sub_graph = sub_graph, m_external_tensors = external_tensors,
      m_ip_tensors = [], m_op_tensors = [], m_tensor_to_value_map = [],
      m_module = None, m_builder = None, m_engine = None, m_invoke_args = [],
      m_mem_mgr = [], mem = h, invocations = 0\<rparr>"

definition add_compiler :: MLIRCompiler where
  "add_compiler = new_compiler [10] [100, 200, 300] [(100, Raw), (200, Raw), (300, Raw)]"

text \<open>
  A unit of two nodes (10 and 11). Tensor 5 of the parameter 1 is read by both; the
  parameter 2 has a second output, tensor 9, that nobody in the unit reads; tensor 7 of
  node 10 is read inside the unit (by 11) and outside (by 20); tensor 8 of node 11 is read
  by two outside nodes.
\<close>

definition two_node_graph :: graph where
  "two_node_graph =
     \<lparr>node_at = (\<lambda>p.
        if p = 10 then \<lparr>get_arguments = [1, 2], get_outputs = [(7, [11, 20])],
                         node_type = TI_Add, description = ''Add''\<rparr>
        else if p = 11 then \<lparr>get_arguments = [10, 1], get_outputs = [(8, [20, 21])],
                              node_type = TI_Add, description = ''Add''\<rparr>
        else if p = 1 then \<lparr>get_arguments = [], get_outputs = [(5, [10, 11])],
                             node_type = TI_other 0, description = ''Parameter''\<rparr>
        else if p = 2 then \<lparr>get_arguments = [], get_outputs = [(6, [10]), (9, [])],
                             node_type = TI_other 0, description = ''Parameter''\<rparr>
        else \<lparr>get_arguments = [10, 11], get_outputs = [(12, [])],
               node_type = TI_other 1, description = ''Result''\<rparr>),
      tensor_at = (\<lambda>t. \<lparr>get_shape = [2, 3], get_element_type = f32\<rparr>)\<rparr>"

text \<open>
  A backend whose dialect lowering turns the tensor parameters and results of a function
  into memory-reference parameters followed by one parameter for the memory manager,
  whose other passes succeed, and whose compiled code asks for two temporaries.
\<close>

fun to_memref :: "mlir_type \<Rightarrow> mlir_type" where
  "to_memref (NGTensorType elt shape) = MemRefType elt shape"
| "to_memref ty = ty"

definition lower_signature :: "Function \<Rightarrow> Function" where
  "lower_signature f =
     f\<lparr>fn_arguments := map to_memref (fn_arguments f) @ map to_memref (fn_results f) @ [OtherType 0],
       fn_results := []\<rparr>"

definition sample_backend :: "bool \<Rightarrow> backend" where
  "sample_backend invocation_succeeds =
     \<lparr>dialect_lowering_pass =
        (\<lambda>m. (m\<lparr>getFunctions := map lower_signature (getFunctions m)\<rparr>, True)),
      lower_affine_pass = (\<lambda>m. (m, True)),
      std_to_llvm_converter = Some,
      execution_engine_create = (\<lambda>m. True),
      engine_invoke = (\<lambda>m args h. (2, invocation_succeeds)),
      NDEBUG = False\<rparr>"



text \<open>
  A compiler whose module holds the lowered function of the \<^verbatim>\<open>Add\<close> unit: three
  memory-reference parameters and the parameter of the memory manager.
\<close>

definition lowered_add_compiler :: "addr list \<Rightarrow> MLIRCompiler" where
  "lowered_add_compiler external_tensors =
     (new_compiler [10] external_tensors [(100, Raw), (200, Raw), (300, Raw)])
       \<lparr>m_module := Some \<lparr>getFunctions =
          [\<lparr>fn_name = ''main'',
            fn_arguments = [MemRefType FloatType_F32 [2, 3], MemRefType FloatType_F32 [2, 3],
                            MemRefType FloatType_F32 [2, 3], OtherType 0],
            fn_results = [],
            fn_blocks = [[NG_AddOp (Argument 0) (Argument 1), NG_ReturnOp [Result 0]]]\<rparr>]\<rparr>\<rparr>"


section \<open>Properties of the boundary analysis\<close>

lemma push_back_if_absent_idem:
  "push_back_if_absent (push_back_if_absent v x) x = push_back_if_absent v x"
  by (simp add: push_back_if_absent_def)

lemma scan_output_inputs_eq:
  "scan_output_inputs sub_graph tensor inputs op_tensors =
     (if \<exists>ip \<in> set inputs. ip \<notin> set sub_graph
      then push_back_if_absent op_tensors tensor else op_tensors)"
  by (induction inputs arbitrary: op_tensors)
     (auto simp: out_of_subgraph_def push_back_if_absent_idem)

lemma scan_outputs_eq:
  "scan_outputs sub_graph outs op_tensors =
     fold (\<lambda>t v. push_back_if_absent v t) (outputs_used_outside sub_graph outs) op_tensors"
  by (induction outs arbitrary: op_tensors)
     (simp_all add: outputs_used_outside_def scan_output_inputs_eq)

lemma add_argument_outputs_eq:
  "add_argument_outputs outs ip_tensors =
     fold (\<lambda>t v. push_back_if_absent v t) (map fst outs) ip_tensors"
  by (induction outs arbitrary: ip_tensors) simp_all

lemma scan_arguments_eq:
  "scan_arguments g sub_graph args ip_tensors =
     fold (\<lambda>t v. push_back_if_absent v t) (outputs_of_outside_arguments g sub_graph args) ip_tensors"
  by (induction args arbitrary: ip_tensors)
     (simp_all add: outputs_of_outside_arguments_def out_of_subgraph_def add_argument_outputs_eq)

lemma tensors_list_loop_eq:
  "tensors_list_loop g sub_graph nodes io =
     (fold (\<lambda>t v. push_back_if_absent v t)
        (concat (map (\<lambda>node. outputs_of_outside_arguments g sub_graph (get_arguments (node_at g node))) nodes))
        (fst io),
      fold (\<lambda>t v. push_back_if_absent v t)
        (concat (map (\<lambda>node. outputs_used_outside sub_graph (get_outputs (node_at g node))) nodes))
        (snd io))"
  by (induction nodes arbitrary: io) (simp_all add: scan_arguments_eq scan_outputs_eq)

lemma set_first_occurrences: "set (first_occurrences xs) = set xs"
  by (simp add: first_occurrences_def)

lemma distinct_first_occurrences: "distinct (first_occurrences xs)"
  by (simp add: first_occurrences_def)

lemma first_occurrences_snoc:
  "first_occurrences (xs @ [x]) = push_back_if_absent (first_occurrences xs) x"
  by (simp add: first_occurrences_def push_back_if_absent_def)

lemma fold_push_back_if_absent:
  "fold (\<lambda>t v. push_back_if_absent v t) xs [] = first_occurrences xs"
proof (induction xs rule: rev_induct)
  case Nil
  show ?case by (simp add: first_occurrences_def)
next
  case (snoc x xs)
  then show ?case by (simp add: first_occurrences_snoc)
qed

lemma build_tensors_list_op:
  "m_op_tensors c = [] \<Longrightarrow>
   m_op_tensors (build_tensors_list g c) = first_occurrences (boundary_outputs g (m_sub_graph c))"
  by (simp add: build_tensors_list_def Let_def tensors_list_loop_eq fold_push_back_if_absent
        boundary_outputs_def)

lemma build_tensors_list_ip:
  "m_ip_tensors c = [] \<Longrightarrow>
   m_ip_tensors (build_tensors_list g c) = first_occurrences (boundary_inputs g (m_sub_graph c))"
  by (simp add: build_tensors_list_def Let_def tensors_list_loop_eq fold_push_back_if_absent
        boundary_inputs_def)

text \<open>
  Claim C1. Starting from an empty output list, \<^verbatim>\<open>build_tensors_list\<close> puts a tensor into
  \<^verbatim>\<open>m_op_tensors\<close> exactly when it is an output of a node of the unit that has at least one
  consumer outside the unit, whatever consumers it has inside; no tensor is listed twice,
  and the list is in the order in which the loops first meet each such tensor.
\<close>

theorem boundary_outputs_classified:
  assumes "m_op_tensors c = []"
  shows "(\<forall>t. t \<in> set (m_op_tensors (build_tensors_list g c)) \<longleftrightarrow>
              (\<exists>node \<in> set (m_sub_graph c). \<exists>out \<in> set (get_outputs (node_at g node)).
                 fst out = t \<and> (\<exists>ip \<in> set (snd out). out_of_subgraph (m_sub_graph c) ip)))
         \<and> distinct (m_op_tensors (build_tensors_list g c))
         \<and> m_op_tensors (build_tensors_list g c) =
             first_occurrences (boundary_outputs g (m_sub_graph c))"
proof -
  have eq: "m_op_tensors (build_tensors_list g c) =
              first_occurrences (boundary_outputs g (m_sub_graph c))"
    using assms by (rule build_tensors_list_op)
  have "set (boundary_outputs g (m_sub_graph c)) =
          {t. \<exists>node \<in> set (m_sub_graph c). \<exists>out \<in> set (get_outputs (node_at g node)).
                fst out = t \<and> (\<exists>ip \<in> set (snd out). out_of_subgraph (m_sub_graph c) ip)}"
    by (auto simp: boundary_outputs_def outputs_used_outside_def out_of_subgraph_def)
  then show ?thesis
    by (simp add: eq set_first_occurrences distinct_first_occurrences)
qed

theorem boundary_outputs_classified_witness:
  "m_op_tensors (new_compiler [10, 11] [] []) = []
   \<and> m_op_tensors (build_tensors_list two_node_graph (new_compiler [10, 11] [] [])) = [7, 8]
   \<and> distinct (m_op_tensors (build_tensors_list two_node_graph (new_compiler [10, 11] [] [])))"
proof -
  have h: "m_op_tensors (new_compiler [10, 11] [] []) = []"
    by (simp add: new_compiler_def)
  have s: "m_sub_graph (new_compiler [10, 11] [] []) = [10, 11]"
    by (simp add: new_compiler_def)
  have "first_occurrences (boundary_outputs two_node_graph [10, 11]) = [7, 8]"
    by (simp add: first_occurrences_def boundary_outputs_def outputs_used_outside_def
          two_node_graph_def)
  with boundary_outputs_classified [OF h, of two_node_graph] h s show ?thesis
    by simp
qed

lemma count_list_distinct:
  "distinct xs \<Longrightarrow> x \<in> set xs \<Longrightarrow> count_list xs x = 1"
  by (induction xs) auto

text \<open>
  Claim C2. Starting from an empty input list, \<^verbatim>\<open>build_tensors_list\<close> walks the arguments
  of each node of the unit and, for each argument outside the unit, adds all output tensors
  of that argument; so every tensor produced by an outside node that a node of the unit
  has as its argument is in \<^verbatim>\<open>m_ip_tensors\<close> exactly once, however many nodes of the unit read
  it, and the list is in first-discovery order.
\<close>

theorem boundary_inputs_registered:
  assumes "m_ip_tensors c = []"
  shows "(\<forall>node \<in> set (m_sub_graph c). \<forall>arg \<in> set (get_arguments (node_at g node)).
            out_of_subgraph (m_sub_graph c) arg \<longrightarrow>
            (\<forall>out \<in> set (get_outputs (node_at g arg)).
               count_list (m_ip_tensors (build_tensors_list g c)) (fst out) = 1))
         \<and> distinct (m_ip_tensors (build_tensors_list g c))
         \<and> m_ip_tensors (build_tensors_list g c) =
             first_occurrences (boundary_inputs g (m_sub_graph c))"
proof -
  let ?ip = "m_ip_tensors (build_tensors_list g c)"
  have eq: "?ip = first_occurrences (boundary_inputs g (m_sub_graph c))"
    using assms by (rule build_tensors_list_ip)
  have d: "distinct ?ip"
    by (simp add: eq distinct_first_occurrences)
  have mem: "fst out \<in> set ?ip"
    if "node \<in> set (m_sub_graph c)" "arg \<in> set (get_arguments (node_at g node))"
       "out_of_subgraph (m_sub_graph c) arg" "out \<in> set (get_outputs (node_at g arg))"
    for node arg out
    using that
    by (auto simp: eq set_first_occurrences boundary_inputs_def outputs_of_outside_arguments_def
          out_of_subgraph_def)
  have "count_list ?ip t = 1" if "t \<in> set ?ip" for t
    using d that by (simp add: count_list_distinct)
  with mem d eq show ?thesis by blast
qed

theorem boundary_inputs_registered_witness:
  "m_ip_tensors (new_compiler [10, 11] [] []) = []
   \<and> m_ip_tensors (build_tensors_list two_node_graph (new_compiler [10, 11] [] [])) = [5, 6, 9]
   \<and> count_list (m_ip_tensors (build_tensors_list two_node_graph (new_compiler [10, 11] [] []))) 5 = 1"
proof -
  have h: "m_ip_tensors (new_compiler [10, 11] [] []) = []"
    by (simp add: new_compiler_def)
  have s: "m_sub_graph (new_compiler [10, 11] [] []) = [10, 11]"
    by (simp add: new_compiler_def)
  have "first_occurrences (boundary_inputs two_node_graph [10, 11]) = [5, 6, 9]"
    by (simp add: first_occurrences_def boundary_inputs_def outputs_of_outside_arguments_def
          two_node_graph_def)
  with boundary_inputs_registered [OF h, of two_node_graph] h s show ?thesis
    by simp
qed

section \<open>Properties of the type mapper\<close>

text \<open>
  Claim C5. The element-type mapper is the fixed table: float32 and float64 map to the
  two float types, the signed and the unsigned integer of each width 8, 16, 32 and 64 map
  to the same integer type of that width, and the boolean, bf16, dynamic and undefined
  kinds stop with an assertion failure instead of a type.
\<close>

theorem element_type_table:
  "get_mlir_type_element f32 = Inr FloatType_F32
   \<and> get_mlir_type_element f64 = Inr FloatType_F64
   \<and> get_mlir_type_element i8 = Inr (IntegerType 8)
   \<and> get_mlir_type_element u8 = Inr (IntegerType 8)
   \<and> get_mlir_type_element i16 = Inr (IntegerType 16)
   \<and> get_mlir_type_element u16 = Inr (IntegerType 16)
   \<and> get_mlir_type_element i32 = Inr (IntegerType 32)
   \<and> get_mlir_type_element u32 = Inr (IntegerType 32)
   \<and> get_mlir_type_element i64 = Inr (IntegerType 64)
   \<and> get_mlir_type_element u64 = Inr (IntegerType 64)
   \<and> get_mlir_type_element boolean = Inl (AssertionFailure ''MLIR: Unsupported NGraph types'')
   \<and> get_mlir_type_element bf16 = Inl (AssertionFailure ''MLIR: Unsupported NGraph types'')
   \<and> get_mlir_type_element dynamic = Inl (AssertionFailure ''MLIR: Unsupported NGraph types'')
   \<and> get_mlir_type_element undefined_t = Inl (AssertionFailure ''MLIR: Unsupported NGraph types'')"
  by simp

section \<open>Properties of the type dispatch primitive\<close>

text \<open>
  Claim C9. For every handle and target descriptor, \<^verbatim>\<open>is_type\<close> holds exactly when the
  descriptor the handle reports is the target descriptor itself (the same address); a
  descriptor at another address does not match, even with the same name and version, and
  so neither does the descriptor of a base class, which is another object. The casts
  \<^verbatim>\<open>as_type\<close> and \<^verbatim>\<open>as_type_ptr\<close> return the handle on a match and the null pointer
  otherwise; they have no failing outcome.
\<close>

theorem is_type_by_identity:
  "(is_type type_info val \<longleftrightarrow> address (get_type_info val) = address type_info)
   \<and> (address (get_type_info val) \<noteq> address type_info
        \<and> name (get_type_info val) = name type_info
        \<and> version (get_type_info val) = version type_info \<longrightarrow> \<not> is_type type_info val)
   \<and> as_type type_info val =
        (if address (get_type_info val) = address type_info then Some val else None)
   \<and> as_type_ptr type_info val =
        (if address (get_type_info val) = address type_info then Some val else None)"
  by (simp add: is_type_def is_castable_def as_type_def as_type_ptr_def)

theorem is_type_by_identity_witness:
  "\<not> is_type \<lparr>address = 2, name = ''Add'', version = 0\<rparr>
       \<lparr>object_address = 50, get_type_info = \<lparr>address = 1, name = ''Add'', version = 0\<rparr>\<rparr>
   \<and> as_type \<lparr>address = 2, name = ''Add'', version = 0\<rparr>
       \<lparr>object_address = 50, get_type_info = \<lparr>address = 1, name = ''Add'', version = 0\<rparr>\<rparr> = None
   \<and> as_type \<lparr>address = 1, name = ''Add'', version = 0\<rparr>
       \<lparr>object_address = 50, get_type_info = \<lparr>address = 1, name = ''Add'', version = 0\<rparr>\<rparr> =
      Some \<lparr>object_address = 50, get_type_info = \<lparr>address = 1, name = ''Add'', version = 0\<rparr>\<rparr>"
  using is_type_by_identity
          [of "\<lparr>address = 2, name = ''Add'', version = 0\<rparr>"
              "\<lparr>object_address = 50, get_type_info = \<lparr>address = 1, name = ''Add'', version = 0\<rparr>\<rparr>"]
        is_type_by_identity
          [of "\<lparr>address = 1, name = ''Add'', version = 0\<rparr>"
              "\<lparr>object_address = 50, get_type_info = \<lparr>address = 1, name = ''Add'', version = 0\<rparr>\<rparr>"]
  by simp

section \<open>Properties of the value map\<close>

lemma map_find_None: "map_find m tensor = None \<longleftrightarrow> tensor \<notin> fst ` set m"
  by (simp add: map_find_def map_of_eq_None_iff)

lemma distinct_map_insert:
  "distinct (map fst m) \<Longrightarrow> distinct (map fst (map_insert m entry))"
  by (simp add: map_insert_def map_find_None)

lemma update_tensor_value_Inr:
  "update_tensor_value c tensor val = Inr c' \<Longrightarrow>
   m_tensor_to_value_map c' = map_insert (m_tensor_to_value_map c) (tensor, \<lparr>m_value = val\<rparr>)"
  by (auto simp: update_tensor_value_def split: if_splits)

lemma value_map_reachable_distinct:
  "value_map_reachable m \<Longrightarrow> distinct (map fst m)"
proof (induction rule: value_map_reachable.induct)
  case initial
  show ?case by simp
next
  case (inserted m entry)
  then show ?case by (simp add: distinct_map_insert)
next
  case (updated c tensor val c')
  then show ?case by (simp add: update_tensor_value_Inr distinct_map_insert)
qed

lemma populate_reachable:
  "value_map_reachable m \<Longrightarrow> value_map_reachable (populate_tensor_to_value_map tensors i m)"
  by (induction tensors arbitrary: i m) (simp_all add: value_map_reachable.inserted)

lemma builder_create_map:
  "builder_create c operation = Inr (v, c') \<Longrightarrow> m_tensor_to_value_map c' = m_tensor_to_value_map c"
  "builder_create c operation = Inl (e, c') \<Longrightarrow> c' = c"
  by (auto simp: builder_create_def split: option.splits list.splits)

lemma create_binary_op_map:
  "create_binary_op BinOp g c ng_node = Inr (v, c') \<Longrightarrow>
     m_tensor_to_value_map c' = m_tensor_to_value_map c"
  "create_binary_op BinOp g c ng_node = Inl (e, c') \<Longrightarrow> c' = c"
  by (auto simp: create_binary_op_def split: sum.splits dest: builder_create_map)

lemma op_dispatcher_map:
  assumes "op_dispatcher ti = Some create_op"
  shows "create_op g c node = Inr (v, c') \<Longrightarrow> m_tensor_to_value_map c' = m_tensor_to_value_map c"
    and "create_op g c node = Inl (e, c') \<Longrightarrow> c' = c"
  using assms
  by (cases ti; auto simp: create_op_Add_def create_op_MatmulBias_def
        split: sum.splits if_splits dest: create_binary_op_map)+

lemma create_return_map:
  "create_return c = Inr c' \<Longrightarrow> m_tensor_to_value_map c' = m_tensor_to_value_map c"
  "create_return c = Inl (e, c') \<Longrightarrow> c' = c"
  by (auto simp: create_return_def split: sum.splits dest: builder_create_map)

lemma update_tensor_value_Inl:
  "update_tensor_value c tensor val = Inl (e, c') \<Longrightarrow> c' = c"
  by (auto simp: update_tensor_value_def split: if_splits)

lemma create_return_reachable:
  assumes "value_map_reachable (m_tensor_to_value_map c)"
  shows "case create_return c of
           Inl (e, c') \<Rightarrow> value_map_reachable (m_tensor_to_value_map c')
         | Inr c' \<Rightarrow> value_map_reachable (m_tensor_to_value_map c')"
  using assms create_return_map [of c]
  by (auto split: sum.splits)

lemma define_and_return_reachable:
  assumes "value_map_reachable (m_tensor_to_value_map c)"
  shows "case (case update_tensor_value c tensor v of Inl e \<Rightarrow> Inl e | Inr c2 \<Rightarrow> create_return c2) of
           Inl (e, c') \<Rightarrow> value_map_reachable (m_tensor_to_value_map c')
         | Inr c' \<Rightarrow> value_map_reachable (m_tensor_to_value_map c')"
proof (cases "update_tensor_value c tensor v")
  case (Inl a)
  then show ?thesis
    using assms update_tensor_value_Inl [of c tensor v "fst a" "snd a"] by (cases a) auto
next
  case (Inr c2)
  with assms have "value_map_reachable (m_tensor_to_value_map c2)"
    by (rule value_map_reachable.updated)
  then show ?thesis
    using Inr create_return_reachable [of c2] by simp
qed

lemma build_ng_dialect_reachable:
  assumes r: "value_map_reachable (m_tensor_to_value_map c)"
  shows "case build_ng_dialect g c of
           Inl (e, c') \<Rightarrow> value_map_reachable (m_tensor_to_value_map c')
         | Inr c' \<Rightarrow> value_map_reachable (m_tensor_to_value_map c')"
proof (cases "length (m_sub_graph c) \<noteq> 1")
  case True
  then show ?thesis using r by (simp add: build_ng_dialect_def)
next
  case one: False
  let ?node = "node_at g (m_sub_graph c ! 0)"
  show ?thesis
  proof (cases "op_dispatcher (node_type ?node)")
    case None
    then show ?thesis using r one by (simp add: build_ng_dialect_def)
  next
    case (Some create_op)
    show ?thesis
    proof (cases "create_op g c ?node")
      case (Inl a)
      then have "snd a = c"
        using op_dispatcher_map(2) [OF Some, of g c ?node "fst a" "snd a"] by simp
      then show ?thesis
        using r one Some Inl by (cases a) (auto simp: build_ng_dialect_def)
    next
      case (Inr a)
      obtain mv c1 where a: "a = (mv, c1)" by (cases a)
      have m1: "m_tensor_to_value_map c1 = m_tensor_to_value_map c"
        using op_dispatcher_map(1) [OF Some, of g c ?node mv c1] Inr a by simp
      then have r1: "value_map_reachable (m_tensor_to_value_map c1)"
        using r by simp
      show ?thesis
      proof (cases mv)
        case None
        then show ?thesis
          using one Some Inr a create_return_reachable [OF r1]
          by (simp add: build_ng_dialect_def)
      next
        case v: (Some v)
        show ?thesis
        proof (cases "get_output_tensor_ptr ?node")
          case (Inl e)
          then show ?thesis
            using one Some Inr a v r1 by (simp add: build_ng_dialect_def)
        next
          case t: (Inr tensor)
          show ?thesis
            using one Some Inr a v t define_and_return_reachable [OF r1, of tensor v]
            by (simp add: build_ng_dialect_def)
        qed
      qed
    qed
  qed
qed

lemma build_tensors_list_fields:
  "m_tensor_to_value_map (build_tensors_list g c) = m_tensor_to_value_map c"
  "m_module (build_tensors_list g c) = m_module c"
  "m_builder (build_tensors_list g c) = m_builder c"
  "m_sub_graph (build_tensors_list g c) = m_sub_graph c"
  "mem (build_tensors_list g c) = mem c"
  "invocations (build_tensors_list g c) = invocations c"
  "m_invoke_args (build_tensors_list g c) = m_invoke_args c"
  "m_mem_mgr (build_tensors_list g c) = m_mem_mgr c"
  "m_external_tensors (build_tensors_list g c) = m_external_tensors c"
  by (simp_all add: build_tensors_list_def Let_def)

lemma build_module_prologue_reachable:
  assumes r: "value_map_reachable (m_tensor_to_value_map c)"
  shows "case build_module_prologue g c of
           Inl (e, c') \<Rightarrow> value_map_reachable (m_tensor_to_value_map c')
         | Inr c' \<Rightarrow> value_map_reachable (m_tensor_to_value_map c')"
  using r
  by (simp add: build_module_prologue_def Let_def build_tensors_list_fields populate_reachable
        split: sum.splits)

lemma build_module_reachable:
  assumes r: "value_map_reachable (m_tensor_to_value_map c)"
  shows "case build_module g c of
           Inl (e, c') \<Rightarrow> value_map_reachable (m_tensor_to_value_map c')
         | Inr c' \<Rightarrow> value_map_reachable (m_tensor_to_value_map c')"
proof (cases "build_module_prologue g c")
  case (Inl a)
  then show ?thesis
    using build_module_prologue_reachable [OF r, of g]
    by (simp add: build_module_def)
next
  case (Inr c1)
  then have r1: "value_map_reachable (m_tensor_to_value_map c1)"
    using build_module_prologue_reachable [OF r, of g] by simp
  show ?thesis
    using Inr build_ng_dialect_reachable [OF r1, of g]
    by (auto simp: build_module_def split: sum.splits option.splits)
qed

text \<open>
  Claim C3. Looking up a tensor that has no entry in the value map stops with the
  assertion failure "Undefined tensor"; defining a value for a tensor that has an entry
  stops with "tensor value already defined" and leaves the state as it was. Every map
  reached from the empty one by the two writes of the source has at most one entry per
  tensor, and so has the map in which \<^verbatim>\<open>build_module\<close> ends, on success and on failure, when
  it starts from an empty map.
\<close>

theorem value_map_single_assignment:
  "(tensor \<notin> fst ` set (m_tensor_to_value_map c) \<longrightarrow>
      get_tensor_value c tensor = Inl (AssertionFailure ''Undefined tensor''))
   \<and> (tensor \<in> fst ` set (m_tensor_to_value_map c) \<longrightarrow>
      update_tensor_value c tensor val = Inl (AssertionFailure ''tensor value already defined'', c))
   \<and> (value_map_reachable (m_tensor_to_value_map c) \<longrightarrow>
      distinct (map fst (m_tensor_to_value_map c)))
   \<and> (m_tensor_to_value_map c = [] \<longrightarrow>
      (case build_module g c of
         Inl (e, c') \<Rightarrow> distinct (map fst (m_tensor_to_value_map c'))
       | Inr c' \<Rightarrow> distinct (map fst (m_tensor_to_value_map c'))))"
proof -
  have "get_tensor_value c tensor = Inl (AssertionFailure ''Undefined tensor'')"
    if "tensor \<notin> fst ` set (m_tensor_to_value_map c)"
    using that map_find_None [of "m_tensor_to_value_map c" tensor]
    by (simp add: get_tensor_value_def)
  moreover have "update_tensor_value c tensor val =
      Inl (AssertionFailure ''tensor value already defined'', c)"
    if "tensor \<in> fst ` set (m_tensor_to_value_map c)"
    using that map_find_None [of "m_tensor_to_value_map c" tensor]
    by (simp add: update_tensor_value_def)
  moreover have "case build_module g c of
         Inl (e, c') \<Rightarrow> distinct (map fst (m_tensor_to_value_map c'))
       | Inr c' \<Rightarrow> distinct (map fst (m_tensor_to_value_map c'))"
    if "m_tensor_to_value_map c = []"
  proof -
    have "value_map_reachable (m_tensor_to_value_map c)"
      using that by (simp add: value_map_reachable.initial)
    from build_module_reachable [OF this, of g] show ?thesis
      by (auto split: sum.splits dest: value_map_reachable_distinct)
  qed
  ultimately show ?thesis
    using value_map_reachable_distinct by blast
qed

theorem value_map_single_assignment_witness:
  "get_tensor_value add_compiler 5 = Inl (AssertionFailure ''Undefined tensor'')
   \<and> update_tensor_value
        (add_compiler\<lparr>m_tensor_to_value_map := map_insert [] (5, \<lparr>m_value = Argument 0\<rparr>)\<rparr>)
        5 (Result 0) =
      Inl (AssertionFailure ''tensor value already defined'',
           add_compiler\<lparr>m_tensor_to_value_map := map_insert [] (5, \<lparr>m_value = Argument 0\<rparr>)\<rparr>)
   \<and> distinct (map fst (map_insert [] (5, \<lparr>m_value = Argument 0\<rparr>)))
   \<and> (case build_module add_graph add_compiler of
         Inl (e, c') \<Rightarrow> distinct (map fst (m_tensor_to_value_map c'))
       | Inr c' \<Rightarrow> distinct (map fst (m_tensor_to_value_map c')))"
proof -
  let ?c1 = "add_compiler\<lparr>m_tensor_to_value_map := map_insert [] (5, \<lparr>m_value = Argument 0\<rparr>)\<rparr>"
  have e: "m_tensor_to_value_map add_compiler = []"
    by (simp add: add_compiler_def new_compiler_def)
  have n: "5 \<notin> fst ` set (m_tensor_to_value_map add_compiler)"
    using e by simp
  have i: "5 \<in> fst ` set (m_tensor_to_value_map ?c1)"
    by (simp add: map_insert_def map_find_def)
  have r: "value_map_reachable (m_tensor_to_value_map ?c1)"
    by (simp add: value_map_reachable.initial value_map_reachable.inserted)
  have m: "m_tensor_to_value_map ?c1 = map_insert [] (5, \<lparr>m_value = Argument 0\<rparr>)"
    by simp
  from value_map_single_assignment [of 5 add_compiler "Result 0" add_graph] e n
  have a: "get_tensor_value add_compiler 5 = Inl (AssertionFailure ''Undefined tensor'')"
    and d: "case build_module add_graph add_compiler of
         Inl (e, c') \<Rightarrow> distinct (map fst (m_tensor_to_value_map c'))
       | Inr c' \<Rightarrow> distinct (map fst (m_tensor_to_value_map c'))"
    by blast+
  from value_map_single_assignment [of 5 ?c1 "Result 0" add_graph] i r
  have b: "update_tensor_value ?c1 5 (Result 0) =
      Inl (AssertionFailure ''tensor value already defined'', ?c1)"
    and c: "distinct (map fst (m_tensor_to_value_map ?c1))"
    by blast+
  from a b c d m show ?thesis by simp
qed

section \<open>Properties of module construction\<close>

text \<open>
  Claim C8. When the boundary analysis leaves the input list empty, \<^verbatim>\<open>build_module\<close> stops
  with the assertion failure "Cannot have empty inputs list"; when it leaves the inputs
  non-empty and the output list empty, with "Cannot have empty outputs list". In both
  cases the state at the failure is the one the boundary analysis left: the module has no
  function, and the builder and the value map are as they were before the call.
\<close>

theorem empty_boundary_list_is_fatal:
  "(m_ip_tensors (build_tensors_list g (c\<lparr>m_module := Some \<lparr>getFunctions = []\<rparr>\<rparr>)) = [] \<longrightarrow>
      build_module g c =
        Inl (AssertionFailure ''Cannot have empty inputs list'',
             build_tensors_list g (c\<lparr>m_module := Some \<lparr>getFunctions = []\<rparr>\<rparr>)))
   \<and> (m_ip_tensors (build_tensors_list g (c\<lparr>m_module := Some \<lparr>getFunctions = []\<rparr>\<rparr>)) \<noteq> []
      \<and> m_op_tensors (build_tensors_list g (c\<lparr>m_module := Some \<lparr>getFunctions = []\<rparr>\<rparr>)) = [] \<longrightarrow>
      build_module g c =
        Inl (AssertionFailure ''Cannot have empty outputs list'',
             build_tensors_list g (c\<lparr>m_module := Some \<lparr>getFunctions = []\<rparr>\<rparr>)))
   \<and> m_module (build_tensors_list g (c\<lparr>m_module := Some \<lparr>getFunctions = []\<rparr>\<rparr>)) =
        Some \<lparr>getFunctions = []\<rparr>
   \<and> m_builder (build_tensors_list g (c\<lparr>m_module := Some \<lparr>getFunctions = []\<rparr>\<rparr>)) = m_builder c
   \<and> m_tensor_to_value_map (build_tensors_list g (c\<lparr>m_module := Some \<lparr>getFunctions = []\<rparr>\<rparr>)) =
        m_tensor_to_value_map c"
  by (simp add: build_module_def build_module_prologue_def Let_def build_tensors_list_fields)

theorem empty_boundary_list_is_fatal_witness:
  "(\<exists>c'. build_module add_graph (new_compiler [1] [] []) =
            Inl (AssertionFailure ''Cannot have empty inputs list'', c')
          \<and> m_ip_tensors c' = [] \<and> m_module c' = Some \<lparr>getFunctions = []\<rparr> \<and> m_builder c' = None)
   \<and> (\<exists>c'. build_module add_graph (new_compiler [20] [] []) =
            Inl (AssertionFailure ''Cannot have empty outputs list'', c')
          \<and> m_ip_tensors c' = [7] \<and> m_op_tensors c' = []
          \<and> m_module c' = Some \<lparr>getFunctions = []\<rparr> \<and> m_builder c' = None)"
proof -
  let ?c1 = "build_tensors_list add_graph ((new_compiler [1] [] [])\<lparr>m_module := Some \<lparr>getFunctions = []\<rparr>\<rparr>)"
  let ?c2 = "build_tensors_list add_graph ((new_compiler [20] [] [])\<lparr>m_module := Some \<lparr>getFunctions = []\<rparr>\<rparr>)"
  have i1: "m_ip_tensors ?c1 = []"
    by (simp add: build_tensors_list_def new_compiler_def add_graph_def)
  have i2: "m_ip_tensors ?c2 = [7]"
    by (simp add: build_tensors_list_def new_compiler_def add_graph_def out_of_subgraph_def
          push_back_if_absent_def)
  have o2: "m_op_tensors ?c2 = []"
    by (simp add: build_tensors_list_def new_compiler_def add_graph_def)
  have b: "m_builder (new_compiler [1] [] []) = None" "m_builder (new_compiler [20] [] []) = None"
    by (simp_all add: new_compiler_def)
  from empty_boundary_list_is_fatal [of add_graph "new_compiler [1] [] []"] i1 b
  have "build_module add_graph (new_compiler [1] [] []) =
            Inl (AssertionFailure ''Cannot have empty inputs list'', ?c1)
          \<and> m_ip_tensors ?c1 = [] \<and> m_module ?c1 = Some \<lparr>getFunctions = []\<rparr> \<and> m_builder ?c1 = None"
    by simp
  moreover from empty_boundary_list_is_fatal [of add_graph "new_compiler [20] [] []"] i2 o2 b
  have "build_module add_graph (new_compiler [20] [] []) =
            Inl (AssertionFailure ''Cannot have empty outputs list'', ?c2)
          \<and> m_ip_tensors ?c2 = [7] \<and> m_op_tensors ?c2 = []
          \<and> m_module ?c2 = Some \<lparr>getFunctions = []\<rparr> \<and> m_builder ?c2 = None"
    by simp
  ultimately show ?thesis by blast
qed

lemma get_mlir_types_Inr:
  "get_mlir_types g tensors = Inr tys \<Longrightarrow>
   length tys = length tensors \<and>
   (\<forall>k < length tensors. get_mlir_type g (tensors ! k) = Inr (tys ! k))"
proof (induction tensors arbitrary: tys)
  case Nil
  then show ?case by simp
next
  case (Cons t ts)
  then show ?case
    by (auto split: sum.splits simp: nth_Cons split: nat.splits)
qed

lemma populate_distinct:
  "distinct tensors \<Longrightarrow> set tensors \<inter> fst ` set m = {} \<Longrightarrow>
   populate_tensor_to_value_map tensors i m =
     m @ zip tensors (map (\<lambda>k. \<lparr>m_value = Argument k\<rparr>) [i..<i + length tensors])"
proof (induction tensors arbitrary: i m)
  case Nil
  then show ?case by simp
next
  case (Cons t ts)
  have ins: "map_insert m (t, \<lparr>m_value = Argument i\<rparr>) = m @ [(t, \<lparr>m_value = Argument i\<rparr>)]"
    using Cons.prems by (simp add: map_insert_def map_find_None)
  have "set ts \<inter> fst ` set (m @ [(t, \<lparr>m_value = Argument i\<rparr>)]) = {}"
    using Cons.prems by auto
  with Cons.IH [of "m @ [(t, \<lparr>m_value = Argument i\<rparr>)]" "i + 1"] Cons.prems
  show ?case
    by (simp add: ins upt_conv_Cons del: upt_Suc)
qed

lemma map_of_zip_nth':
  "distinct xs \<Longrightarrow> length ys = length xs \<Longrightarrow> k < length xs \<Longrightarrow>
   map_of (zip xs ys) (xs ! k) = Some (ys ! k)"
  by (simp add: map_of_zip_nth)

text \<open>
  Claim C10. When \<^verbatim>\<open>build_module\<close> starts from an empty value map and empty tensor lists and
  reaches the creation of the builder, the value map holds the boundary-input tensors in
  list order and nothing else, the \<open>k\<close>-th of them with the \<open>k\<close>-th argument of the function;
  the function has one parameter per boundary input, of that tensor's type, and its entry
  block is still empty; a lookup of the \<open>k\<close>-th boundary input returns the \<open>k\<close>-th argument.
  This is the state that the lowering of the unit starts from.
\<close>

theorem value_map_seeded_with_arguments:
  assumes "m_tensor_to_value_map c = []" and "m_ip_tensors c = []"
    and "build_module_prologue g c = Inr c'"
  shows "m_tensor_to_value_map c' =
           zip (m_ip_tensors c')
             (map (\<lambda>k. \<lparr>m_value = Argument k\<rparr>) [0..<length (m_ip_tensors c')])
         \<and> map fst (m_tensor_to_value_map c') = m_ip_tensors c'
         \<and> distinct (m_ip_tensors c')
         \<and> (\<forall>k < length (m_ip_tensors c').
              get_tensor_value c' (m_ip_tensors c' ! k) = Inr \<lparr>m_value = Argument k\<rparr>)
         \<and> (\<exists>f. m_builder c' = Some f \<and> fn_blocks f = [[]]
                \<and> length (fn_arguments f) = length (m_ip_tensors c')
                \<and> (\<forall>k < length (m_ip_tensors c').
                     get_mlir_type g (m_ip_tensors c' ! k) = Inr (fn_arguments f ! k)))
         \<and> build_module g c =
             (case build_ng_dialect g c' of
                Inl e \<Rightarrow> Inl e
              | Inr c2 \<Rightarrow>
                  (case (m_module c2, m_builder c2) of
                     (Some module, Some function) \<Rightarrow>
                       Inr (c2\<lparr>m_module :=
                                 Some (module\<lparr>getFunctions := getFunctions module @ [function]\<rparr>)\<rparr>)
                   | _ \<Rightarrow> Inl (AssertionFailure ''no module'', c2)))"
proof -
  let ?c1 = "build_tensors_list g (c\<lparr>m_module := Some \<lparr>getFunctions = []\<rparr>\<rparr>)"
  let ?ip = "m_ip_tensors ?c1"
  let ?args = "map (\<lambda>k. \<lparr>m_value = Argument k\<rparr>) [0..<length ?ip]"
  from assms(3) obtain args_type_list result_type_list where
    tys: "get_mlir_types g ?ip = Inr args_type_list"
    and c': "c' = ?c1\<lparr>m_tensor_to_value_map :=
                       populate_tensor_to_value_map ?ip 0 (m_tensor_to_value_map ?c1),
                     m_builder := Some \<lparr>fn_name = ''main'', fn_arguments = args_type_list,
                                        fn_results = result_type_list, fn_blocks = [[]]\<rparr>\<rparr>"
    by (auto simp: build_module_prologue_def Let_def split: if_splits sum.splits)
  have ip: "?ip = first_occurrences (boundary_inputs g (m_sub_graph c))"
    using assms(2) build_tensors_list_ip [of "c\<lparr>m_module := Some \<lparr>getFunctions = []\<rparr>\<rparr>" g]
    by simp
  have d: "distinct ?ip"
    by (simp add: ip distinct_first_occurrences)
  have m1: "m_tensor_to_value_map ?c1 = []"
    using assms(1) by (simp add: build_tensors_list_fields)
  have pop: "populate_tensor_to_value_map ?ip 0 (m_tensor_to_value_map ?c1) = zip ?ip ?args"
    using populate_distinct [OF d, of "[]" 0] by (simp add: m1)
  have ip': "m_ip_tensors c' = ?ip"
    by (simp add: c')
  have m': "m_tensor_to_value_map c' = zip ?ip ?args"
    by (simp add: c' pop)
  have look: "get_tensor_value c' (?ip ! k) = Inr \<lparr>m_value = Argument k\<rparr>" if "k < length ?ip" for k
    using that map_of_zip_nth' [OF d, of ?args k]
    by (simp add: get_tensor_value_def map_find_def m')
  have b: "m_builder c' = Some \<lparr>fn_name = ''main'', fn_arguments = args_type_list,
                                 fn_results = result_type_list, fn_blocks = [[]]\<rparr>"
    by (simp add: c')
  have bm: "build_module g c =
             (case build_ng_dialect g c' of
                Inl e \<Rightarrow> Inl e
              | Inr c2 \<Rightarrow>
                  (case (m_module c2, m_builder c2) of
                     (Some module, Some function) \<Rightarrow>
                       Inr (c2\<lparr>m_module :=
                                 Some (module\<lparr>getFunctions := getFunctions module @ [function]\<rparr>)\<rparr>)
                   | _ \<Rightarrow> Inl (AssertionFailure ''no module'', c2)))"
    using assms(3) by (simp add: build_module_def)
  show ?thesis
    using get_mlir_types_Inr [OF tys] d look bm
    by (simp add: ip' m' b)
qed

theorem value_map_seeded_with_arguments_witness:
  "\<exists>c'. build_module_prologue add_graph add_compiler = Inr c'
      \<and> m_ip_tensors c' = [5, 6]
      \<and> m_tensor_to_value_map c' = [(5, \<lparr>m_value = Argument 0\<rparr>), (6, \<lparr>m_value = Argument 1\<rparr>)]
      \<and> get_tensor_value c' 6 = Inr \<lparr>m_value = Argument 1\<rparr>"
proof -
  have e: "m_tensor_to_value_map add_compiler = []" "m_ip_tensors add_compiler = []"
    by (simp_all add: add_compiler_def new_compiler_def)
  obtain c' where p: "build_module_prologue add_graph add_compiler = Inr c'"
    and ip: "m_ip_tensors c' = [5, 6]"
    by (simp add: build_module_prologue_def build_tensors_list_def add_compiler_def
          new_compiler_def add_graph_def out_of_subgraph_def push_back_if_absent_def
          get_mlir_type_def)
  from value_map_seeded_with_arguments [OF e p]
  have m: "m_tensor_to_value_map c' =
           zip (m_ip_tensors c')
             (map (\<lambda>k. \<lparr>m_value = Argument k\<rparr>) [0..<length (m_ip_tensors c')])"
    and l: "\<forall>k < length (m_ip_tensors c').
              get_tensor_value c' (m_ip_tensors c' ! k) = Inr \<lparr>m_value = Argument k\<rparr>"
    by blast+
  from m have "m_tensor_to_value_map c' = [(5, \<lparr>m_value = Argument 0\<rparr>), (6, \<lparr>m_value = Argument 1\<rparr>)]"
    by (simp add: ip upt_rec)
  moreover from l [rule_format, of 1] have "get_tensor_value c' 6 = Inr \<lparr>m_value = Argument 1\<rparr>"
    by (simp add: ip)
  ultimately show ?thesis using p ip by simp
qed

section \<open>Properties of the dispatch\<close>














lemma allocate_memref_args_loop_assertion:
  "allocate_memref_args_loop tys args h \<noteq> Inl (unsupported_op msg, h')"
  by (induction tys arbitrary: args h)
     (auto simp: allocate_memref_descriptor_def malloc_def split: sum.splits mlir_type.splits if_splits)

lemma bind_arguments_assertion:
  "bind_arguments c \<noteq> Inl (unsupported_op msg, c')"
  using allocate_memref_args_loop_assertion
  by (auto simp: bind_arguments_def allocate_memref_args_def Let_def
        split: option.splits sum.splits prod.splits if_splits)








section \<open>Properties of the heap\<close>

lemma fold_max_ge: "(a::nat) \<in> set xs \<Longrightarrow> a \<le> fold max xs m"
proof (induction xs arbitrary: m)
  case Nil
  then show ?case by simp
next
  case (Cons x xs)
  have "m \<le> fold max xs m" for m :: nat
    by (induction xs arbitrary: m) (auto intro: order_trans [OF max.cobounded2])
  from this [of "max x m"] Cons show ?case by auto
qed

lemma fresh_not_allocated: "fresh h \<notin> allocated h"
proof
  assume "fresh h \<in> allocated h"
  then have "fresh h \<in> set (map fst h)" by (simp add: allocated_def)
  then have "fresh h \<le> fold max (map fst h) 0" by (rule fold_max_ge)
  then show False by (simp add: fresh_def)
qed

lemma fresh_not_null: "fresh h \<noteq> 0"
  by (simp add: fresh_def)

lemma allocated_append: "allocated (h @ h') = allocated h \<union> allocated h'"
  by (auto simp: allocated_def)


lemma allocate_memref_args_loop_Inr:
  "allocate_memref_args_loop tys args h = Inr (args', h') \<Longrightarrow>
   \<exists>new. args' = args @ new \<and> h' = h @ map (\<lambda>a. (a, StaticFloatMemRef 0)) new
        \<and> distinct new \<and> set new \<inter> allocated h = {} \<and> 0 \<notin> set new
        \<and> length new = length (filter is_memref tys)"
proof (induction tys arbitrary: args h)
  case Nil
  then show ?case by simp
next
  case (Cons ty tys)
  show ?case
  proof (cases "is_memref ty")
    case False
    then have "allocate_memref_descriptor ty h = Inr (0, h)"
      by (cases ty) (simp_all add: allocate_memref_descriptor_def)
    with Cons.prems have "allocate_memref_args_loop tys args h = Inr (args', h')"
      by simp
    from Cons.IH [OF this] False show ?thesis by simp
  next
    case True
    then obtain elt shape where ty: "ty = MemRefType elt shape"
      by (cases ty) simp_all
    let ?d = "fresh h"
    let ?h1 = "h @ [(?d, StaticFloatMemRef 0)]"
    from Cons.prems ty have dyn: "getNumDynamicDims shape = 0"
      by (auto simp: allocate_memref_descriptor_def split: if_splits)
    then have "allocate_memref_descriptor ty h = Inr (?d, ?h1)"
      by (simp add: ty allocate_memref_descriptor_def malloc_def)
    with Cons.prems have "allocate_memref_args_loop tys (args @ [?d]) ?h1 = Inr (args', h')"
      by (simp add: fresh_not_null)
    from Cons.IH [OF this] obtain new where
      new: "args' = (args @ [?d]) @ new" "h' = ?h1 @ map (\<lambda>a. (a, StaticFloatMemRef 0)) new"
        "distinct new" "set new \<inter> allocated ?h1 = {}" "0 \<notin> set new"
        "length new = length (filter is_memref tys)"
      by blast
    have "?d \<notin> set new"
      using new(4) by (auto simp: allocated_def)
    moreover have "set new \<inter> allocated h = {}"
      using new(4) by (auto simp: allocated_def)
    ultimately have "args' = args @ (?d # new) \<and> h' = h @ map (\<lambda>a. (a, StaticFloatMemRef 0)) (?d # new)
        \<and> distinct (?d # new) \<and> set (?d # new) \<inter> allocated h = {} \<and> 0 \<notin> set (?d # new)
        \<and> length (?d # new) = length (filter is_memref (ty # tys))"
      using new True fresh_not_allocated [of h] fresh_not_null [of h] by simp
    then show ?thesis by blast
  qed
qed

lemma store_data_addresses: "map fst (store_data h p d) = map fst h"
  by (induction h) (simp_all add: store_data_def)

lemma store_data_others:
  "filter (\<lambda>block. fst block \<notin> S) (store_data h p d) = filter (\<lambda>block. fst block \<notin> S) h"
  if "p \<in> S"
  using that by (induction h) (auto simp: store_data_def)

lemma assign_external_tensors_addresses:
  "map fst (assign_external_tensors args i ext h) = map fst h"
  by (induction args arbitrary: i h) (simp_all add: store_data_addresses)

lemma assign_external_tensors_others:
  "set args \<subseteq> S \<Longrightarrow>
   filter (\<lambda>block. fst block \<notin> S) (assign_external_tensors args i ext h) =
   filter (\<lambda>block. fst block \<notin> S) h"
  by (induction args arbitrary: i h) (simp_all add: store_data_others)

lemma block_at_store_data_other:
  "a \<noteq> p \<Longrightarrow> block_at (store_data h p d) a = block_at h a"
  by (induction h) (auto simp: store_data_def block_at_def)

lemma block_at_store_data_same:
  "p \<in> allocated h \<Longrightarrow> block_at (store_data h p d) p = Some (StaticFloatMemRef d)"
  by (induction h) (auto simp: store_data_def block_at_def allocated_def)

lemma store_data_not_allocated:
  "p \<notin> allocated h \<Longrightarrow> store_data h p d = h"
  by (induction h) (auto simp: store_data_def allocated_def)

lemma block_at_store_data:
  "block_at (store_data h p d) a =
     (if a = p \<and> a \<in> allocated h then Some (StaticFloatMemRef d) else block_at h a)"
  using block_at_store_data_other [of a p h d] block_at_store_data_same [of p h d]
    store_data_not_allocated [of p h d]
  by auto

lemma allocated_store_data: "allocated (store_data h p d) = allocated h"
  using store_data_addresses [of h p d] by (metis allocated_def set_map)

lemma block_at_assign_external_tensors:
  "distinct args \<Longrightarrow> set args \<subseteq> allocated h \<Longrightarrow> k < length args \<Longrightarrow>
   block_at (assign_external_tensors args i ext h) (args ! k) =
     Some (StaticFloatMemRef (ext ! (i + k)))"
proof (induction args arbitrary: i h k)
  case Nil
  then show ?case by simp
next
  case (Cons a args)
  show ?case
  proof (cases k)
    case 0
    have keep: "block_at (assign_external_tensors args j ext h') a = block_at h' a"
      if "a \<notin> set args" for j h'
      using that
      by (induction args arbitrary: j h') (simp_all add: block_at_store_data)
    from Cons.prems 0 show ?thesis
      by (simp add: keep block_at_store_data)
  next
    case (Suc k')
    with Cons.prems Cons.IH [of "store_data h a (ext ! i)" k' "i + 1"]
    show ?thesis by (simp add: allocated_store_data)
  qed
qed

section \<open>What module construction leaves alone\<close>

lemma builder_create_resources:
  "builder_create c operation = Inr (v, c') \<Longrightarrow> resources c' = resources c"
  by (auto simp: builder_create_def resources_def split: option.splits list.splits)

lemma create_binary_op_resources:
  "create_binary_op BinOp g c ng_node = Inr (v, c') \<Longrightarrow> resources c' = resources c"
  by (auto simp: create_binary_op_def split: sum.splits dest: builder_create_resources)

lemma op_dispatcher_resources:
  "op_dispatcher ti = Some create_op \<Longrightarrow> create_op g c node = Inr (v, c') \<Longrightarrow>
   resources c' = resources c"
  by (cases ti)
     (auto simp: create_op_Add_def create_op_MatmulBias_def
        split: sum.splits if_splits dest: create_binary_op_resources)

lemma update_tensor_value_resources:
  "update_tensor_value c tensor val = Inr c' \<Longrightarrow> resources c' = resources c"
  by (auto simp: update_tensor_value_def resources_def split: if_splits)

lemma create_return_resources:
  "create_return c = Inr c' \<Longrightarrow> resources c' = resources c"
  by (auto simp: create_return_def split: sum.splits dest: builder_create_resources)

lemma create_return_outcome:
  "case create_return c of
     Inl (e, c') \<Rightarrow> resources c' = resources c
   | Inr c' \<Rightarrow> resources c' = resources c"
  using create_return_resources [of c] create_return_map(2) [of c]
  by (auto split: sum.splits)

lemma build_ng_dialect_resources:
  "case build_ng_dialect g c of
     Inl (e, c') \<Rightarrow> resources c' = resources c
   | Inr c' \<Rightarrow> resources c' = resources c"
proof (cases "length (m_sub_graph c) \<noteq> 1")
  case True
  then show ?thesis by (simp add: build_ng_dialect_def)
next
  case one: False
  let ?node = "node_at g (m_sub_graph c ! 0)"
  show ?thesis
  proof (cases "op_dispatcher (node_type ?node)")
    case None
    then show ?thesis using one by (simp add: build_ng_dialect_def)
  next
    case (Some create_op)
    show ?thesis
    proof (cases "create_op g c ?node")
      case (Inl a)
      then have "snd a = c"
        using op_dispatcher_map(2) [OF Some, of g c ?node "fst a" "snd a"] by simp
      then show ?thesis
        using one Some Inl by (cases a) (auto simp: build_ng_dialect_def)
    next
      case (Inr a)
      obtain mv c1 where a: "a = (mv, c1)" by (cases a)
      have r1: "resources c1 = resources c"
        using op_dispatcher_resources [OF Some, of g c ?node mv c1] Inr a by simp
      show ?thesis
      proof (cases mv)
        case None
        then show ?thesis
          using one Some Inr a create_return_outcome [where c = c1] r1
          by (auto simp: build_ng_dialect_def split: sum.splits)
      next
        case v: (Some v)
        show ?thesis
        proof (cases "get_output_tensor_ptr ?node")
          case (Inl e)
          then show ?thesis
            using one Some Inr a v r1 by (simp add: build_ng_dialect_def)
        next
          case t: (Inr tensor)
          show ?thesis
          proof (cases "update_tensor_value c1 tensor v")
            case (Inl b)
            then have "snd b = c1"
              using update_tensor_value_Inl [of c1 tensor v "fst b" "snd b"] by simp
            then show ?thesis
              using one Some Inr a v t Inl r1 by (cases b) (auto simp: build_ng_dialect_def)
          next
            case c2: (Inr c2)
            then have "resources c2 = resources c"
              using update_tensor_value_resources [of c1 tensor v c2] r1 by simp
            then show ?thesis
              using one Some Inr a v t c2 create_return_outcome [where c = c2]
              by (auto simp: build_ng_dialect_def split: sum.splits)
          qed
        qed
      qed
    qed
  qed
qed

lemma build_tensors_list_engine:
  "m_engine (build_tensors_list g c) = m_engine c"
  by (simp add: build_tensors_list_def Let_def)

lemma build_tensors_list_resources:
  "resources (build_tensors_list g c) = resources c"
  by (simp add: resources_def build_tensors_list_fields build_tensors_list_engine)

lemma build_module_prologue_resources:
  "case build_module_prologue g c of
     Inl (e, c') \<Rightarrow> resources c' = resources c
   | Inr c' \<Rightarrow> resources c' = resources c"
  by (simp add: build_module_prologue_def Let_def build_tensors_list_fields resources_def
        build_tensors_list_engine split: sum.splits)

lemma build_module_resources:
  "case build_module g c of
     Inl (e, c') \<Rightarrow> resources c' = resources c
   | Inr c' \<Rightarrow> resources c' = resources c"
proof (cases "build_module_prologue g c")
  case (Inl a)
  then show ?thesis
    using build_module_prologue_resources [where g = g and c = c] by (simp add: build_module_def)
next
  case (Inr c1)
  then have r1: "resources c1 = resources c"
    using build_module_prologue_resources [where g = g and c = c] by simp
  have upd: "resources (c2\<lparr>m_module := m\<rparr>) = resources c2" for c2 m
    by (simp add: resources_def)
  show ?thesis
    using Inr build_ng_dialect_resources [where g = g and c = c1] r1
    by (auto simp: build_module_def upd split: sum.splits option.splits)
qed

lemma lower_dialect_resources:
  "case lower_dialect b c of
     Inl (e, c') \<Rightarrow> resources c' = resources c
   | Inr c' \<Rightarrow> resources c' = resources c"
  by (simp add: lower_dialect_def resources_def split: option.splits)

lemma optimize_resources:
  "case optimize b c of
     Inl (e, c') \<Rightarrow> resources c' = resources c
   | Inr c' \<Rightarrow> resources c' = resources c"
  by (simp add: optimize_def resources_def Let_def split: option.splits prod.splits)

text \<open>The three steps before the binding, as one.\<close>

lemma before_binding:
  "(\<exists>e c'. compile_and_run b g c = Inl (e, c') \<and> resources c' = resources c)
   \<or> (\<exists>c3. resources c3 = resources c \<and>
          compile_and_run b g c =
            (case bind_arguments c3 of
               Inl e \<Rightarrow> Inl e
             | Inr c4 \<Rightarrow> (case execute b c4 of Inl e \<Rightarrow> Inl e | Inr c5 \<Rightarrow> Inr (cleanup c5))))"
proof (cases "build_module g c")
  case (Inl a)
  then show ?thesis
    using build_module_resources [where g = g and c = c] by (cases a) (auto simp: compile_and_run_def)
next
  case c1: (Inr c1)
  then have r1: "resources c1 = resources c"
    using build_module_resources [where g = g and c = c] by simp
  show ?thesis
  proof (cases "lower_dialect b c1")
    case (Inl a)
    then show ?thesis
      using c1 r1 lower_dialect_resources [where b = b and c = c1] by (cases a) (auto simp: compile_and_run_def)
  next
    case c2: (Inr c2)
    then have r2: "resources c2 = resources c"
      using r1 lower_dialect_resources [where b = b and c = c1] by simp
    show ?thesis
    proof (cases "optimize b c2")
      case (Inl a)
      then show ?thesis
        using c1 c2 r2 optimize_resources [where b = b and c = c2] by (cases a) (auto simp: compile_and_run_def)
    next
      case c3: (Inr c3)
      then have "resources c3 = resources c"
        using r2 optimize_resources [where b = b and c = c2] by simp
      then show ?thesis
        using c1 c2 c3 by (auto simp: compile_and_run_def)
    qed
  qed
qed

section \<open>Properties of the argument binding\<close>

lemma block_at_append:
  "block_at (h @ h') a = (if a \<in> allocated h then block_at h a else block_at h' a)"
proof (cases "a \<in> allocated h")
  case True
  then have "map_of h a \<noteq> None"
    by (simp add: allocated_def map_of_eq_None_iff)
  with True show ?thesis
    by (auto simp: block_at_def map_add_def)
next
  case False
  then have "map_of h a = None"
    by (simp add: allocated_def map_of_eq_None_iff)
  with False show ?thesis
    by (simp add: block_at_def map_add_def)
qed

lemma block_at_new_descriptor:
  "d \<in> set new \<Longrightarrow> block_at (map (\<lambda>a. (a, content)) new) d = Some content"
  by (induction new) (auto simp: block_at_def)

lemma allocated_new_blocks: "allocated (map (\<lambda>a. (a, content)) new) = set new"
  by (auto simp: allocated_def image_iff)

lemma allocated_assign_external_tensors:
  "allocated (assign_external_tensors args i ext h) = allocated h"
  using assign_external_tensors_addresses [of args i ext h]
  by (metis allocated_def set_map)

lemma assign_external_tensors_old_blocks:
  "set args \<inter> allocated h = {} \<Longrightarrow>
   assign_external_tensors args i ext (h @ h') = h @ assign_external_tensors args i ext h'"
proof (induction args arbitrary: i h')
  case Nil
  show ?case by simp
next
  case (Cons a args)
  have "store_data (h @ h') a d = h @ store_data h' a d" for d
    using Cons.prems store_data_not_allocated [of a h d]
    by (simp add: store_data_def)
  with Cons show ?case by simp
qed

lemma allocate_memref_args_loop_Inl:
  "allocate_memref_args_loop tys args h = Inl (e, h') \<Longrightarrow> \<exists>new. h' = h @ new"
proof (induction tys arbitrary: args h)
  case Nil
  then show ?case by simp
next
  case (Cons ty tys)
  show ?case
  proof (cases "allocate_memref_descriptor ty h")
    case (Inl a)
    then have "snd a = h"
      by (cases ty) (auto simp: allocate_memref_descriptor_def split: if_splits)
    with Cons.prems Inl show ?thesis by (cases a) auto
  next
    case (Inr a)
    obtain d h1 where a: "a = (d, h1)" by (cases a)
    from Inr a have "\<exists>new. h1 = h @ new"
      by (cases ty) (auto simp: allocate_memref_descriptor_def malloc_def split: if_splits)
    then obtain new1 where h1: "h1 = h @ new1" by blast
    from Cons.prems Inr a
    have "allocate_memref_args_loop tys (if d = 0 then args else args @ [d]) h1 = Inl (e, h')"
      by (simp split: if_splits)
    from Cons.IH [OF this] h1 show ?thesis by auto
  qed
qed

lemma bind_arguments_Inr:
  assumes "bind_arguments c = Inr c'"
  obtains module func descriptors h where
    "m_module c = Some module" "getNamedFunction module ''main'' = Some func"
    "fn_blocks func \<noteq> []" "allocate_memref_args func (mem c) = Inr (descriptors, h)"
    "descriptors \<noteq> []" "length descriptors = length (m_external_tensors c)"
    "length descriptors = get_mem_mgr_arg_id func"
    "c' = c\<lparr>m_invoke_args :=
               descriptors @ [fresh (assign_external_tensors descriptors 0 (m_external_tensors c) h)],
             mem := assign_external_tensors descriptors 0 (m_external_tensors c) h @
                    [(fresh (assign_external_tensors descriptors 0 (m_external_tensors c) h),
                      MemMgrRef)]\<rparr>"
  using assms
  by (auto simp: bind_arguments_def Let_def malloc_def
        split: option.splits sum.splits prod.splits if_splits)

lemma bind_arguments_Inl:
  assumes "bind_arguments c = Inl (e, c')"
  shows "(\<exists>new. mem c' = mem c @ new)
         \<and> (m_invoke_args c' = m_invoke_args c \<or> set (m_invoke_args c') \<subseteq> allocated (mem c'))
         \<and> m_mem_mgr c' = m_mem_mgr c \<and> m_engine c' = m_engine c
         \<and> invocations c' = invocations c \<and> (\<exists>msg. e = AssertionFailure msg)"
proof -
  have asrt: "\<exists>msg. e = AssertionFailure msg"
    using assms bind_arguments_assertion [of c _ c'] by (cases e) auto
  show ?thesis
  proof (cases "m_module c")
    case None
    with assms asrt show ?thesis by (auto simp: bind_arguments_def)
  next
    case (Some module)
    show ?thesis
    proof (cases "getNamedFunction module ''main''")
      case None
      with assms asrt Some show ?thesis by (auto simp: bind_arguments_def)
    next
      case func: (Some func)
      show ?thesis
      proof (cases "fn_blocks func = []")
        case True
        with assms asrt Some func show ?thesis by (auto simp: bind_arguments_def)
      next
        case blocks: False
        show ?thesis
        proof (cases "allocate_memref_args func (mem c)")
          case (Inl a)
          obtain e1 h1 where a: "a = (e1, h1)" by (cases a)
          from Inl a obtain new where "h1 = mem c @ new"
            using allocate_memref_args_loop_Inl [of "fn_arguments func" "[]" "mem c" e1 h1]
            by (auto simp: allocate_memref_args_def)
          with assms asrt Some func blocks Inl a show ?thesis
            by (auto simp: bind_arguments_def)
        next
          case (Inr a)
          obtain descriptors h where a: "a = (descriptors, h)" by (cases a)
          from Inr a obtain new where new: "descriptors = new"
            "h = mem c @ map (\<lambda>a. (a, StaticFloatMemRef 0)) new"
            "set new \<inter> allocated (mem c) = {}"
            using allocate_memref_args_loop_Inr [of "fn_arguments func" "[]" "mem c" descriptors h]
            by (auto simp: allocate_memref_args_def)
          have sub: "set descriptors \<subseteq> allocated h"
            using new by (auto simp: allocated_append allocated_new_blocks)
          let ?h2 = "assign_external_tensors descriptors 0 (m_external_tensors c) h"
          have h2: "?h2 = mem c @ assign_external_tensors descriptors 0 (m_external_tensors c)
                                    (map (\<lambda>a. (a, StaticFloatMemRef 0)) new)"
            using new assign_external_tensors_old_blocks [of descriptors "mem c"] by simp
          have sub2: "set descriptors \<subseteq> allocated ?h2"
            using sub by (simp add: allocated_assign_external_tensors)
          from assms asrt Some func blocks Inr a new(2) h2 sub sub2 show ?thesis
            by (auto simp: bind_arguments_def Let_def malloc_def allocated_append
                  split: if_splits)
        qed
      qed
    qed
  qed
qed

lemma execute_failure_messages:
  "execute b c = Inl (e, c') \<Longrightarrow>
   e \<noteq> AssertionFailure
         ''Number of external tensors doesn't match number of function arguments''"
  by (auto simp: execute_def Let_def split: option.splits prod.splits if_splits)

text \<open>
  Claim C6. \<^verbatim>\<open>bind_arguments\<close> allocates one descriptor with a null data pointer for each
  declared parameter that is a memory reference, all new and different. When their number
  differs from the size of \<^verbatim>\<open>m_external_tensors\<close> it stops with an assertion failure, and
  no invocation has taken place, neither then nor when \<^verbatim>\<open>compile_and_run\<close> fails with the
  mismatch. When it succeeds, the \<open>i\<close>-th descriptor points to the \<open>i\<close>-th external buffer,
  one more block holding the memory manager's pointer is the last invocation argument,
  and there are as many invocation arguments as declared parameters.
\<close>

theorem bind_arguments_protocol:
  assumes "m_module c = Some module" and "getNamedFunction module ''main'' = Some func"
    and "fn_blocks func \<noteq> []"
    and "allocate_memref_args func (mem c) = Inr (descriptors, h)"
  shows "length descriptors = length (filter is_memref (fn_arguments func))
         \<and> distinct descriptors
         \<and> (\<forall>d \<in> set descriptors.
              block_at h d = Some (StaticFloatMemRef 0) \<and> d \<notin> allocated (mem c) \<and> d \<noteq> 0)
         \<and> (length descriptors \<noteq> length (m_external_tensors c) \<longrightarrow>
              (\<exists>msg c'. bind_arguments c = Inl (AssertionFailure msg, c')
                 \<and> invocations c' = invocations c \<and> m_engine c' = m_engine c))
         \<and> (\<forall>c'. bind_arguments c = Inr c' \<longrightarrow>
              length (m_invoke_args c') = length (fn_arguments func)
              \<and> length (m_invoke_args c') = length (m_external_tensors c) + 1
              \<and> butlast (m_invoke_args c') = descriptors
              \<and> distinct (m_invoke_args c')
              \<and> (\<forall>i < length (m_external_tensors c).
                   block_at (mem c') (m_invoke_args c' ! i) =
                     Some (StaticFloatMemRef (m_external_tensors c ! i)))
              \<and> block_at (mem c') (last (m_invoke_args c')) = Some MemMgrRef
              \<and> invocations c' = invocations c)
         \<and> (\<forall>c'. compile_and_run b g c0 =
                Inl (AssertionFailure
                       ''Number of external tensors doesn't match number of function arguments'', c')
              \<longrightarrow> invocations c' = invocations c0)"
proof -
  from assms(4) obtain new where new: "descriptors = new"
    "h = mem c @ map (\<lambda>a. (a, StaticFloatMemRef 0)) new"
    "distinct new" "set new \<inter> allocated (mem c) = {}" "0 \<notin> set new"
    "length new = length (filter is_memref (fn_arguments func))"
    using allocate_memref_args_loop_Inr [of "fn_arguments func" "[]" "mem c" descriptors h]
    by (auto simp: allocate_memref_args_def)
  have 1: "length descriptors = length (filter is_memref (fn_arguments func))"
    and 2: "distinct descriptors"
    using new by simp_all
  have 3: "block_at h d = Some (StaticFloatMemRef 0) \<and> d \<notin> allocated (mem c) \<and> d \<noteq> 0"
    if "d \<in> set descriptors" for d
    using that new by (auto simp: block_at_append block_at_new_descriptor)
  have sub: "set descriptors \<subseteq> allocated h"
    using new by (auto simp: allocated_append allocated_new_blocks)
  have 4: "\<exists>msg c'. bind_arguments c = Inl (AssertionFailure msg, c')
                 \<and> invocations c' = invocations c \<and> m_engine c' = m_engine c"
    if "length descriptors \<noteq> length (m_external_tensors c)"
    using that assms by (simp add: bind_arguments_def Let_def)
  have 5: "length (m_invoke_args c') = length (fn_arguments func)
              \<and> length (m_invoke_args c') = length (m_external_tensors c) + 1
              \<and> butlast (m_invoke_args c') = descriptors
              \<and> distinct (m_invoke_args c')
              \<and> (\<forall>i < length (m_external_tensors c).
                   block_at (mem c') (m_invoke_args c' ! i) =
                     Some (StaticFloatMemRef (m_external_tensors c ! i)))
              \<and> block_at (mem c') (last (m_invoke_args c')) = Some MemMgrRef
              \<and> invocations c' = invocations c"
    if ok: "bind_arguments c = Inr c'" for c'
  proof -
    let ?h2 = "assign_external_tensors descriptors 0 (m_external_tensors c) h"
    let ?mgr = "fresh ?h2"
    from ok assms have ne: "descriptors \<noteq> []"
      and len: "length descriptors = length (m_external_tensors c)"
      and id: "length descriptors = get_mem_mgr_arg_id func"
      and c': "c' = c\<lparr>m_invoke_args := descriptors @ [?mgr], mem := ?h2 @ [(?mgr, MemMgrRef)]\<rparr>"
      by (auto elim!: bind_arguments_Inr)
    have al2: "allocated ?h2 = allocated h"
      by (rule allocated_assign_external_tensors)
    have mgr: "?mgr \<notin> allocated ?h2"
      by (rule fresh_not_allocated)
    then have mgr_new: "?mgr \<notin> set descriptors"
      using sub al2 by auto
    have "block_at (?h2 @ [(?mgr, MemMgrRef)]) (descriptors ! i) =
            Some (StaticFloatMemRef (m_external_tensors c ! i))"
      if "i < length descriptors" for i
      using sub al2 nth_mem [OF that]
        block_at_assign_external_tensors [OF 2 sub that, of 0 "m_external_tensors c"]
      by (auto simp: block_at_append)
    moreover have "block_at (?h2 @ [(?mgr, MemMgrRef)]) ?mgr = Some MemMgrRef"
      using mgr by (simp add: block_at_append) (simp add: block_at_def)
    moreover have "length descriptors + 1 = length (fn_arguments func)"
      using ne id by (cases descriptors) (auto simp: get_mem_mgr_arg_id_def)
    ultimately show ?thesis
      using len 2 mgr_new by (simp add: c' nth_append)
  qed
  have 6: "invocations c' = invocations c0"
    if run: "compile_and_run b g c0 =
                Inl (AssertionFailure
                       ''Number of external tensors doesn't match number of function arguments'', c')"
    for c'
  proof -
    from before_binding [of b g c0] consider
      (early) "resources c' = resources c0"
      | (late) c3 where "resources c3 = resources c0"
          "compile_and_run b g c0 =
            (case bind_arguments c3 of
               Inl e \<Rightarrow> Inl e
             | Inr c4 \<Rightarrow> (case execute b c4 of Inl e \<Rightarrow> Inl e | Inr c5 \<Rightarrow> Inr (cleanup c5)))"
      using run by auto
    then show ?thesis
    proof cases
      case early
      then show ?thesis by (simp add: resources_def)
    next
      case late
      show ?thesis
      proof (cases "bind_arguments c3")
        case (Inl a)
        with late(2) run have "bind_arguments c3 = Inl (AssertionFailure
                       ''Number of external tensors doesn't match number of function arguments'', c')"
          by simp
        from bind_arguments_Inl [OF this] late(1) show ?thesis
          by (simp add: resources_def)
      next
        case (Inr c4)
        with late(2) run have "execute b c4 = Inl (AssertionFailure
                       ''Number of external tensors doesn't match number of function arguments'', c')"
          by (auto split: sum.splits)
        from execute_failure_messages [OF this] show ?thesis by simp
      qed
    qed
  qed
  from 1 2 3 4 5 6 show ?thesis by blast
qed

lemmas pipeline_defs =
  compile_and_run_def build_module_def build_module_prologue_def build_tensors_list_def
  build_ng_dialect_def create_op_Add_def create_binary_op_def get_argument_def
  get_output_tensor_ptr_def get_tensor_value_def map_find_def map_insert_def
  update_tensor_value_def create_return_def builder_create_def get_mlir_type_def
  out_of_subgraph_def push_back_if_absent_def lower_dialect_def optimize_def
  bind_arguments_def getNamedFunction_def allocate_memref_args_def
  allocate_memref_descriptor_def getNumDynamicDims_def malloc_def fresh_def
  get_mem_mgr_arg_id_def store_data_def execute_def MemMgr_allocate_def cleanup_def
  freeAll_def free_def lower_signature_def sample_backend_def add_graph_def
  add_compiler_def new_compiler_def Let_def

lemma two_temporaries:
  "jit_temporaries 2 c = MemMgr_allocate (MemMgr_allocate c)"
  by (simp add: numeral_2_eq_2)

lemma mismatch_run:
  "\<exists>c'. compile_and_run (sample_backend True) add_graph
          (new_compiler [10] [100, 200] [(100, Raw), (200, Raw), (300, Raw)]) =
        Inl (AssertionFailure
               ''Number of external tensors doesn't match number of function arguments'', c')"
  by (simp add: pipeline_defs two_temporaries)

theorem bind_arguments_protocol_witness:
  "(\<exists>c'. bind_arguments (lowered_add_compiler [100, 200, 300]) = Inr c'
      \<and> butlast (m_invoke_args c') = [301, 302, 303]
      \<and> length (m_invoke_args c') = 4
      \<and> block_at (mem c') (m_invoke_args c' ! 1) = Some (StaticFloatMemRef 200)
      \<and> block_at (mem c') (last (m_invoke_args c')) = Some MemMgrRef)
   \<and> (\<exists>msg c'. bind_arguments (lowered_add_compiler [100, 200]) = Inl (AssertionFailure msg, c')
      \<and> invocations c' = 0)
   \<and> (\<exists>c'. compile_and_run (sample_backend True) add_graph
          (new_compiler [10] [100, 200] [(100, Raw), (200, Raw), (300, Raw)]) =
        Inl (AssertionFailure
               ''Number of external tensors doesn't match number of function arguments'', c')
      \<and> invocations c' = 0)"
proof -
  let ?func = "\<lparr>fn_name = ''main'',
            fn_arguments = [MemRefType FloatType_F32 [2, 3], MemRefType FloatType_F32 [2, 3],
                            MemRefType FloatType_F32 [2, 3], OtherType 0],
            fn_results = [],
            fn_blocks = [[NG_AddOp (Argument 0) (Argument 1), NG_ReturnOp [Result 0]]]\<rparr>"
  let ?module = "\<lparr>getFunctions = [?func]\<rparr>"
  let ?h = "[(100, Raw), (200, Raw), (300, Raw), (301, StaticFloatMemRef 0),
             (302, StaticFloatMemRef 0), (303, StaticFloatMemRef 0)]"
  let ?c0 = "new_compiler [10] [100, 200] [(100, Raw), (200, Raw), (300, Raw)]"
  have m: "m_module (lowered_add_compiler ext) = Some ?module" for ext
    by (simp add: lowered_add_compiler_def new_compiler_def)
  have f: "getNamedFunction ?module ''main'' = Some ?func"
    by (simp add: getNamedFunction_def)
  have b: "fn_blocks ?func \<noteq> []"
    by simp
  have a: "allocate_memref_args ?func (mem (lowered_add_compiler ext)) = Inr ([301, 302, 303], ?h)"
    for ext
    by (simp add: allocate_memref_args_def allocate_memref_descriptor_def getNumDynamicDims_def
          malloc_def fresh_def lowered_add_compiler_def new_compiler_def)
  have e: "m_external_tensors (lowered_add_compiler ext) = ext"
    "invocations (lowered_add_compiler ext) = 0" for ext
    by (simp_all add: lowered_add_compiler_def new_compiler_def)
  obtain c' where ok: "bind_arguments (lowered_add_compiler [100, 200, 300]) = Inr c'"
    using m f b a [of "[100, 200, 300]"]
    by (simp add: bind_arguments_def Let_def e get_mem_mgr_arg_id_def malloc_def)
  from bind_arguments_protocol [OF m f b a, of "[100, 200, 300]"] ok
  have "butlast (m_invoke_args c') = [301, 302, 303]
      \<and> length (m_invoke_args c') = 4
      \<and> block_at (mem c') (m_invoke_args c' ! 1) = Some (StaticFloatMemRef 200)
      \<and> block_at (mem c') (last (m_invoke_args c')) = Some MemMgrRef"
    by (simp add: e)
  moreover from bind_arguments_protocol [OF m f b a, of "[100, 200]"]
  have "\<exists>msg c'. bind_arguments (lowered_add_compiler [100, 200]) = Inl (AssertionFailure msg, c')
      \<and> invocations c' = 0"
    by (simp add: e) blast
  moreover obtain c'' where run: "compile_and_run (sample_backend True) add_graph ?c0 =
        Inl (AssertionFailure
               ''Number of external tensors doesn't match number of function arguments'', c'')"
    using mismatch_run by blast
  from bind_arguments_protocol [OF m f b a, of "[100, 200]" "sample_backend True" add_graph ?c0] run
  have "invocations c'' = invocations ?c0"
    by blast
  then have "invocations c'' = 0"
    by (simp add: new_compiler_def)
  ultimately show ?thesis using ok run by blast
qed

section \<open>Properties of execution and cleanup\<close>






















section \<open>Failed passes that do not stop the run\<close>


end
